theory Spec2Isabelle
  imports Main
begin

section \<open>Data model (database.py)\<close>

text \<open>
  The relational store of the healer daemon.  Every table is a list of rows; primary keys
  are natural numbers; a nullable column is an \<open>option\<close>.  Binary columns and text
  columns are byte strings.  The bookkeeping columns \<open>created_at\<close> and \<open>last_updated\<close>
  are read by no handler and are left out.
\<close>

datatype SessionType = IC_SESSION | REQUEST_SESSION | AVATAR_LINK | GROUP_IC_SESSION

datatype SessionStatus = SCHEDULED | RUNNING | COMPLETED | STOPPED | FAILED | RESTARTED

record Avatar =
  avatar_key :: nat
  avatar_name :: string
  photo_data :: string
  info_data :: string

record InformationCopy =
  ic_key :: nat
  ic_name :: string
  wav_data :: string

record Request =
  request_key :: nat
  request_name :: string
  request_data :: string

text \<open>
  The three group tables (\<open>AvatarGroup\<close>, \<open>ICGroup\<close>, \<open>RequestGroup\<close>) have the same
  shape: a key, a unique name and the member rows, kept here as the member ids.  The
  order in which a query returns the member rows is not the order of this list; it is
  chosen by the environment (see \<open>loaded_members\<close>).
\<close>

record Group =
  group_key :: nat
  group_name :: string
  members :: "nat list"

record Session =
  session_id :: nat
  parent_session_id :: "nat option"
  is_group_session :: bool
  description :: "string option"
  avatar_id :: "nat option"
  ic_id :: "nat option"
  request_id :: "nat option"
  destination_avatar_id :: "nat option"
  avatar_group_id :: "nat option"
  ic_group_id :: "nat option"
  request_group_id :: "nat option"
  session_type :: SessionType
  start_time :: int
  end_time :: "int option"
  status :: SessionStatus
  worker_pid :: "nat option"

text \<open>
  \<open>Session(...)\<close> with the column defaults: every reference is NULL and
  \<open>is_group_session\<close> is False unless the caller sets it.  The key is assigned when the
  row is inserted.
\<close>

definition Session_init :: "SessionType \<Rightarrow> int \<Rightarrow> int option \<Rightarrow> SessionStatus \<Rightarrow> Session" where
  "Session_init ty st en stat =
     \<lparr>session_id = 0, parent_session_id = None, is_group_session = False,
      description = None, avatar_id = None, ic_id = None, request_id = None,
      destination_avatar_id = None, avatar_group_id = None, ic_group_id = None,
      request_group_id = None, session_type = ty, start_time = st, end_time = en,
      status = stat, worker_pid = None\<rparr>"

section \<open>The daemon's state and its environment (healer\_daemon.py)\<close>

text \<open>
  \<open>HealerDaemon\<close> holds the store behind \<open>db_session\<close>, the three payload caches and
  \<open>active_workers\<close> (session id to the pid of the worker process).  \<open>sessions_seq\<close> is
  the next key of the sessions table.

  \<open>db_session\<close> is created with \<open>autoflush=False\<close>: an attribute assignment is written
  to the store by the next \<open>commit()\<close> and discarded by the next \<open>rollback()\<close>.  Every
  assignment of the daemon is followed by a commit before its handler returns, with one
  exception: \<open>parent.status = SessionStatus.FAILED\<close> in
  \<open>handle_fail_sessions_on_target\<close>, which the early return of that handler leaves
  uncommitted.  \<open>pending_failed\<close> holds the keys of the sessions with that assignment
  pending.  The \<open>sessions\<close> table holds the stored rows.

  Times are microseconds since \<open>datetime.min\<close> (0001-01-01T00:00:00).
\<close>

record HealerDaemon =
  avatars :: "Avatar list"
  information_copies :: "InformationCopy list"
  requests :: "Request list"
  avatar_groups :: "Group list"
  ic_groups :: "Group list"
  request_groups :: "Group list"
  sessions :: "Session list"
  sessions_seq :: nat
  ic_cache :: "nat \<rightharpoonup> string"
  avatar_cache :: "nat \<rightharpoonup> string"
  request_cache :: "nat \<rightharpoonup> string"
  active_workers :: "nat \<rightharpoonup> nat"
  clock_reads :: nat
  process_starts :: nat
  pending_failed :: "nat list"

text \<open>
  The environment is what the code does not determine.  \<open>utcnow_at e k\<close> is what the
  k-th call of \<open>datetime.utcnow()\<close> returns; \<open>process_pid_at e k\<close> is the pid of the k-th
  process started, or None when \<open>process.start()\<close> raises.  No query of the daemon has
  an ORDER BY: \<open>row_rank e q\<close> ranks the session rows that the query \<open>q\<close> returns and
  \<open>member_rank e q g\<close> the member ids of the group with key \<open>g\<close> that \<open>q\<close> loads, and a
  query returns its rows by ascending rank.  \<open>str_isdigit\<close> and \<open>int_of_str\<close> are
  \<open>str.isdigit\<close> and \<open>int\<close> on the text of a request (\<open>Inl\<close> is the message of the
  ValueError), and \<open>float_minutes e d\<close> is \<open>int(d.total_seconds() / 60)\<close> for a time
  difference of \<open>d\<close> microseconds, a floating-point quotient.
\<close>

record Env =
  utcnow_at :: "nat \<Rightarrow> int"
  process_pid_at :: "nat \<Rightarrow> nat option"
  row_rank :: "string \<Rightarrow> Session \<Rightarrow> nat"
  member_rank :: "string \<Rightarrow> nat \<Rightarrow> nat \<Rightarrow> nat"
  str_isdigit :: "string \<Rightarrow> bool"
  int_of_str :: "string \<Rightarrow> string + nat"
  float_minutes :: "int \<Rightarrow> int"

text \<open>
  A reply is the JSON object a handler returns.  \<open>Running_on\<close> is the success reply of
  \<open>view_running_on\<close> with its rows; \<open>Null_reply\<close> stands for a handler that falls off its
  end and returns None.
\<close>

record view_row =
  vr_session_id :: nat
  vr_type :: string
  vr_target :: "string option"
  vr_duration_minutes :: "int option"

datatype reply = Success string | Error string | Running_on string nat "view_row list" | Null_reply

subsection \<open>Formatting\<close>

definition quoted :: "string \<Rightarrow> string" where
  "quoted n = CHR 0x27 # n @ [CHR 0x27]"

function str_nat :: "nat \<Rightarrow> string" where
  "str_nat n = (if n < 10 then [''0123456789'' ! n]
                else str_nat (n div 10) @ [''0123456789'' ! (n mod 10)])"
  by pat_completeness auto
termination
  by (relation "measure id") auto

declare str_nat.simps [simp del]

definition str_int :: "int \<Rightarrow> string" where
  "str_int i = (if i < 0 then CHR ''-'' # str_nat (nat (- i)) else str_nat (nat i))"

definition str_id :: "nat option \<Rightarrow> string" where
  "str_id k = (case k of None \<Rightarrow> ''None'' | Some n \<Rightarrow> str_nat n)"

definition str_name :: "string option \<Rightarrow> string" where
  "str_name n = (case n of None \<Rightarrow> ''None'' | Some t \<Rightarrow> t)"

text \<open>Python truthiness of an optional integer and of an optional string.\<close>

definition truthy_id :: "nat option \<Rightarrow> bool" where
  "truthy_id k = (case k of None \<Rightarrow> False | Some n \<Rightarrow> n \<noteq> 0)"

definition truthy_name :: "string option \<Rightarrow> bool" where
  "truthy_name n = (case n of None \<Rightarrow> False | Some t \<Rightarrow> t \<noteq> [])"

subsection \<open>Queries\<close>

definition get_avatar :: "HealerDaemon \<Rightarrow> nat option \<Rightarrow> Avatar option" where
  "get_avatar s k = (case k of None \<Rightarrow> None
                     | Some n \<Rightarrow> find (\<lambda>a. avatar_key a = n) (avatars s))"

definition get_ic :: "HealerDaemon \<Rightarrow> nat option \<Rightarrow> InformationCopy option" where
  "get_ic s k = (case k of None \<Rightarrow> None
                 | Some n \<Rightarrow> find (\<lambda>a. ic_key a = n) (information_copies s))"

definition get_request :: "HealerDaemon \<Rightarrow> nat option \<Rightarrow> Request option" where
  "get_request s k = (case k of None \<Rightarrow> None
                      | Some n \<Rightarrow> find (\<lambda>a. request_key a = n) (requests s))"

definition get_session :: "HealerDaemon \<Rightarrow> nat \<Rightarrow> Session option" where
  "get_session s k = find (\<lambda>x. session_id x = k) (sessions s)"

definition group_by_name :: "Group list \<Rightarrow> string option \<Rightarrow> Group option" where
  "group_by_name gs n = (case n of None \<Rightarrow> None
                         | Some t \<Rightarrow> find (\<lambda>g. group_name g = t) gs)"

definition group_by_key :: "Group list \<Rightarrow> nat option \<Rightarrow> Group option" where
  "group_by_key gs k = (case k of None \<Rightarrow> None
                        | Some n \<Rightarrow> find (\<lambda>g. group_key g = n) gs)"

text \<open>
  \<open>query(Session).filter(...).all()\<close> and the member rows of a loaded group, in the
  order the environment gives to the query \<open>q\<close>.
\<close>

definition query_all :: "Env \<Rightarrow> string \<Rightarrow> Session list \<Rightarrow> Session list" where
  "query_all e q xs = sort_key (row_rank e q) xs"

definition loaded_members :: "Env \<Rightarrow> string \<Rightarrow> Group \<Rightarrow> nat list" where
  "loaded_members e q g = sort_key (member_rank e q (group_key g)) (members g)"

text \<open>\<open>entity.name\<close> on the result of a query: AttributeError when the row is missing.\<close>

definition no_attribute :: "string \<Rightarrow> string" where
  "no_attribute a = quoted ''NoneType'' @ '' object has no attribute '' @ quoted a"

subsection \<open>The unit of work: attribute reads, commit and rollback\<close>

text \<open>
  \<open>session.status\<close> read from the object: the pending assignment if there is one, the
  stored column otherwise.  A filter of a query reads the stored column.
\<close>

definition attr_status :: "HealerDaemon \<Rightarrow> Session \<Rightarrow> SessionStatus" where
  "attr_status s x = (if session_id x \<in> set (pending_failed s) then FAILED else status x)"

text \<open>\<open>db_session.commit()\<close> writes the pending assignments; \<open>db_session.rollback()\<close> drops them.\<close>

definition commit :: "HealerDaemon \<Rightarrow> HealerDaemon" where
  "commit s = s\<lparr>sessions := map (\<lambda>x. x\<lparr>status := attr_status s x\<rparr>) (sessions s),
               pending_failed := []\<rparr>"

definition rollback :: "HealerDaemon \<Rightarrow> HealerDaemon" where
  "rollback s = s\<lparr>pending_failed := []\<rparr>"

definition update_session :: "nat \<Rightarrow> (Session \<Rightarrow> Session) \<Rightarrow> HealerDaemon \<Rightarrow> HealerDaemon" where
  "update_session k f s =
     s\<lparr>sessions := map (\<lambda>x. if session_id x = k then f x else x) (sessions s)\<rparr>"

text \<open>
  Assignments \<open>f\<close> to the attributes of session \<open>k\<close>, followed at once by
  \<open>db_session.commit()\<close>: the commit writes what was pending and the new values, the
  new values last.
\<close>

definition commit_session :: "nat \<Rightarrow> (Session \<Rightarrow> Session) \<Rightarrow> HealerDaemon \<Rightarrow> HealerDaemon" where
  "commit_session k f s = update_session k f (commit s)"

text \<open>\<open>db_session.add(x); db_session.commit()\<close>: the row gets the next key.\<close>

definition db_add :: "Session \<Rightarrow> HealerDaemon \<Rightarrow> Session \<times> HealerDaemon" where
  "db_add x s =
     (let s0 = commit s;
          x' = x\<lparr>session_id := sessions_seq s0\<rparr>
      in (x', s0\<lparr>sessions := sessions s0 @ [x'], sessions_seq := Suc (sessions_seq s0)\<rparr>))"

subsection \<open>Clock and time arithmetic\<close>

definition utcnow :: "Env \<Rightarrow> HealerDaemon \<Rightarrow> int \<times> HealerDaemon" where
  "utcnow e s = (utcnow_at e (clock_reads s), s\<lparr>clock_reads := Suc (clock_reads s)\<rparr>)"

text \<open>\<open>datetime.max\<close>, 9999-12-31T23:59:59.999999, in microseconds since \<open>datetime.min\<close>.\<close>

definition datetime_max :: int where
  "datetime_max = 315537897599999999"

text \<open>
  \<open>datetime.timedelta(minutes=d)\<close> for an integer \<open>d\<close>, in microseconds.  The number of
  days is converted to a C int and must have a magnitude of at most 999999999; both
  failures are OverflowError, with the messages of CPython.
\<close>

definition timedelta_minutes :: "int \<Rightarrow> string + int" where
  "timedelta_minutes d =
     (let days = d div 1440
      in if days < - 2147483648 \<or> 2147483647 < days
         then Inl ''Python int too large to convert to C int''
         else if days < - 999999999 \<or> 999999999 < days
         then Inl (''days='' @ str_int days @ ''; must have magnitude <= 999999999'')
         else Inr (d * 60000000))"

text \<open>\<open>datetime + timedelta\<close>: OverflowError when the sum leaves the years 1 to 9999.\<close>

definition datetime_add :: "int \<Rightarrow> int \<Rightarrow> string + int" where
  "datetime_add t delta =
     (if t + delta < 0 \<or> datetime_max < t + delta then Inl ''date value out of range''
      else Inr (t + delta))"

text \<open>
  The expression
  \<open>(utcnow() + timedelta(minutes=data['duration'])) if data.get('duration') else None\<close>:
  the clock is read only when the duration is truthy; \<open>Inl\<close> is the OverflowError, with
  the state in which it is raised.
\<close>

definition end_time_expr ::
  "Env \<Rightarrow> int option \<Rightarrow> HealerDaemon \<Rightarrow> (string \<times> HealerDaemon) + (int option \<times> HealerDaemon)" where
  "end_time_expr e duration s =
     (case duration of
        None \<Rightarrow> Inr (None, s)
      | Some d \<Rightarrow>
          if d = 0 then Inr (None, s)
          else (case utcnow e s of
                  (now, s') \<Rightarrow>
                    (case timedelta_minutes d of
                       Inl err \<Rightarrow> Inl (err, s')
                     | Inr delta \<Rightarrow>
                         (case datetime_add now delta of
                            Inl err \<Rightarrow> Inl (err, s')
                          | Inr en \<Rightarrow> Inr (Some en, s')))))"

subsection \<open>Loops\<close>

text \<open>
  A \<open>for\<close> loop whose body may raise: the first exception ends the loop, and the state
  reached so far is kept with the message, since every iteration commits its own rows.
\<close>

fun for_each :: "('a \<Rightarrow> 's \<Rightarrow> (string \<times> 's) + 's) \<Rightarrow> 'a list \<Rightarrow> 's \<Rightarrow> (string \<times> 's) + 's" where
  "for_each body [] s = Inr s"
| "for_each body (x # xs) s =
     (case body x s of Inl err \<Rightarrow> Inl err | Inr s' \<Rightarrow> for_each body xs s')"

section \<open>Caching and spawning\<close>

text \<open>
  The three loaders return None where the source raises ValueError (row not found) and
  otherwise the payload with the cache filled.
\<close>

definition load_avatar_to_cache :: "nat option \<Rightarrow> HealerDaemon \<Rightarrow> (string \<times> HealerDaemon) option" where
  "load_avatar_to_cache k s =
     (case k of
        None \<Rightarrow> None
      | Some n \<Rightarrow>
          (case avatar_cache s n of
             Some b \<Rightarrow> Some (b, s)
           | None \<Rightarrow>
               (case get_avatar s k of
                  None \<Rightarrow> None
                | Some a \<Rightarrow>
                    (let b = photo_data a @ info_data a
                     in Some (b, s\<lparr>avatar_cache := (avatar_cache s)(n \<mapsto> b)\<rparr>)))))"

definition load_ic_to_cache :: "nat option \<Rightarrow> HealerDaemon \<Rightarrow> (string \<times> HealerDaemon) option" where
  "load_ic_to_cache k s =
     (case k of
        None \<Rightarrow> None
      | Some n \<Rightarrow>
          (case ic_cache s n of
             Some b \<Rightarrow> Some (b, s)
           | None \<Rightarrow>
               (case get_ic s k of
                  None \<Rightarrow> None
                | Some a \<Rightarrow> Some (wav_data a, s\<lparr>ic_cache := (ic_cache s)(n \<mapsto> wav_data a)\<rparr>))))"

definition load_request_to_cache :: "nat option \<Rightarrow> HealerDaemon \<Rightarrow> (string \<times> HealerDaemon) option" where
  "load_request_to_cache k s =
     (case k of
        None \<Rightarrow> None
      | Some n \<Rightarrow>
          (case request_cache s n of
             Some b \<Rightarrow> Some (b, s)
           | None \<Rightarrow>
               (case get_request s k of
                  None \<Rightarrow> None
                | Some a \<Rightarrow>
                    Some (request_data a, s\<lparr>request_cache := (request_cache s)(n \<mapsto> request_data a)\<rparr>))))"

text \<open>
  Two payload loads in sequence: \<open>Inl\<close> is the state at the ValueError of the first
  load that fails, \<open>Inr\<close> the state with both payloads cached.
\<close>

definition load_two ::
  "(HealerDaemon \<Rightarrow> (string \<times> HealerDaemon) option) \<Rightarrow> (HealerDaemon \<Rightarrow> (string \<times> HealerDaemon) option)
     \<Rightarrow> HealerDaemon \<Rightarrow> HealerDaemon + HealerDaemon" where
  "load_two item1 item2 s =
     (case item1 s of
        None \<Rightarrow> Inl s
      | Some (b1, s1) \<Rightarrow> (case item2 s1 of None \<Rightarrow> Inl s1 | Some (b2, s2) \<Rightarrow> Inr s2))"

text \<open>
  The head of the \<open>try\<close> block of \<open>_spawn_worker_for_session\<close>: the payloads are
  chosen by the session type.
\<close>

definition load_items :: "Session \<Rightarrow> HealerDaemon \<Rightarrow> HealerDaemon + HealerDaemon" where
  "load_items x s =
     (if session_type x = IC_SESSION \<or> session_type x = GROUP_IC_SESSION then
        load_two (load_avatar_to_cache (avatar_id x)) (load_ic_to_cache (ic_id x)) s
      else if session_type x = REQUEST_SESSION then
        load_two (load_avatar_to_cache (avatar_id x)) (load_request_to_cache (request_id x)) s
      else
        load_two (load_avatar_to_cache (avatar_id x))
          (load_avatar_to_cache (destination_avatar_id x)) s)"

text \<open>
  \<open>_spawn_worker_for_session\<close>.  On success the session is set RUNNING with the pid and
  committed, then the worker is registered; on any exception the session is set FAILED
  and committed.
\<close>

definition spawn_worker_for_session :: "Env \<Rightarrow> nat \<Rightarrow> HealerDaemon \<Rightarrow> HealerDaemon" where
  "spawn_worker_for_session e k s =
     (case get_session s k of
        None \<Rightarrow> s
      | Some x \<Rightarrow>
          if k = 0 then s
          else if active_workers s k \<noteq> None then s
          else
            (case load_items x s of
               Inl s1 \<Rightarrow> commit_session k (\<lambda>y. y\<lparr>status := FAILED\<rparr>) s1
             | Inr s1 \<Rightarrow>
                 (case process_pid_at e (process_starts s1) of
                    None \<Rightarrow>
                      commit_session k (\<lambda>y. y\<lparr>status := FAILED\<rparr>)
                        (s1\<lparr>process_starts := Suc (process_starts s1)\<rparr>)
                  | Some pid \<Rightarrow>
                      (commit_session k (\<lambda>y. y\<lparr>status := RUNNING, worker_pid := Some pid\<rparr>)
                         (s1\<lparr>process_starts := Suc (process_starts s1)\<rparr>))
                      \<lparr>active_workers := (active_workers s1)(k \<mapsto> pid)\<rparr>)))"

text \<open>
  \<open>_stop_single_session\<close> and \<open>_fail_single_session\<close>: \<open>query(Session).get(id)\<close> gives
  the object, whose \<open>status\<close> attribute is read.
\<close>

definition stop_single_session :: "nat \<Rightarrow> HealerDaemon \<Rightarrow> bool \<times> HealerDaemon" where
  "stop_single_session k s =
     (case get_session s k of
        None \<Rightarrow> (False, s)
      | Some x \<Rightarrow>
          if attr_status s x \<noteq> RUNNING then (False, s)
          else (True, (commit_session k (\<lambda>y. y\<lparr>status := STOPPED, worker_pid := None\<rparr>) s)
                        \<lparr>active_workers := (active_workers s)(k := None)\<rparr>))"

definition fail_single_session :: "nat \<Rightarrow> HealerDaemon \<Rightarrow> bool \<times> HealerDaemon" where
  "fail_single_session k s =
     (case get_session s k of
        None \<Rightarrow> (False, s)
      | Some x \<Rightarrow>
          if attr_status s x \<noteq> RUNNING then (False, s)
          else (True, (commit_session k (\<lambda>y. y\<lparr>status := FAILED, worker_pid := None\<rparr>) s)
                        \<lparr>active_workers := (active_workers s)(k := None)\<rparr>))"

text \<open>
  The constructor call \<open>Session(..., start_time=utcnow(), end_time=(utcnow() + ...) if
  ... else None, status=...)\<close> of the start handlers: the clock is read once for the
  start time and once more for the end time when a duration is given; \<open>Inl\<close> is the
  OverflowError of the end time.
\<close>

definition timed_session ::
  "Env \<Rightarrow> int option \<Rightarrow> SessionType \<Rightarrow> SessionStatus \<Rightarrow> HealerDaemon
     \<Rightarrow> (string \<times> HealerDaemon) + (Session \<times> HealerDaemon)" where
  "timed_session e duration ty stat s =
     (case utcnow e s of
        (now, s1) \<Rightarrow>
          (case end_time_expr e duration s1 of
             Inl err \<Rightarrow> Inl err
           | Inr (en, s2) \<Rightarrow> Inr (Session_init ty now en stat, s2)))"

text \<open>\<open>add(child); commit(); _spawn_worker_for_session(child)\<close>.\<close>

definition add_and_spawn :: "Env \<Rightarrow> Session \<Rightarrow> HealerDaemon \<Rightarrow> HealerDaemon" where
  "add_and_spawn e x s =
     (case db_add x s of (child, s1) \<Rightarrow> spawn_worker_for_session e (session_id child) s1)"

section \<open>Start commands\<close>

text \<open>
  The four start handlers run in one \<open>try\<close> block each: an exception is answered with
  its message after \<open>db_session.rollback()\<close>; the rows committed before it stay.
\<close>

subsection \<open>start\_group\<close>

record start_group_data =
  sg_avatar_group :: "string option"
  sg_ic_group :: "string option"
  sg_duration :: "int option"

text \<open>One iteration of the inner loop of \<open>handle_start_group\<close>.\<close>

definition start_group_child ::
  "Env \<Rightarrow> Session \<Rightarrow> nat \<Rightarrow> nat \<Rightarrow> HealerDaemon \<Rightarrow> (string \<times> HealerDaemon) + HealerDaemon" where
  "start_group_child e parent a i s =
     (case get_avatar s (Some a) of
        None \<Rightarrow> Inl (no_attribute ''name'', s)
      | Some av \<Rightarrow>
          (case get_ic s (Some i) of
             None \<Rightarrow> Inl (no_attribute ''name'', s)
           | Some ic \<Rightarrow>
               (let child_desc = quoted (avatar_name av) @ '' <=> '' @ quoted (ic_name ic)
                       @ '' (from Group Session #'' @ str_nat (session_id parent) @ '')''
                in Inr (add_and_spawn e
                         ((Session_init IC_SESSION (start_time parent) (end_time parent) SCHEDULED)
                            \<lparr>parent_session_id := Some (session_id parent),
                             avatar_id := Some a, ic_id := Some i,
                             description := Some child_desc\<rparr>) s))))"

definition handle_start_group :: "Env \<Rightarrow> start_group_data \<Rightarrow> HealerDaemon \<Rightarrow> reply \<times> HealerDaemon" where
  "handle_start_group e data s =
     (case group_by_name (avatar_groups s) (sg_avatar_group data) of
        None \<Rightarrow> (Error (''Avatar group '' @ quoted (str_name (sg_avatar_group data)) @ '' not found.''),
                 rollback s)
      | Some avatar_group \<Rightarrow>
          (case group_by_name (ic_groups s) (sg_ic_group data) of
             None \<Rightarrow> (Error (''IC group '' @ quoted (str_name (sg_ic_group data)) @ '' not found.''),
                      rollback s)
           | Some ic_group \<Rightarrow>
               if members avatar_group = [] \<or> members ic_group = []
               then (Error ''Both avatar and IC groups must be non-empty.'', s)
               else
                 (case timed_session e (sg_duration data) GROUP_IC_SESSION RUNNING s of
                    Inl (err, s2) \<Rightarrow> (Error err, rollback s2)
                  | Inr (p0, s2) \<Rightarrow>
                      (let desc = ''IC Group '' @ quoted (group_name ic_group)
                             @ '' on Avatar Group '' @ quoted (group_name avatar_group);
                           (parent, s3) = db_add
                              (p0\<lparr>is_group_session := True, description := Some desc,
                                 avatar_group_id := Some (group_key avatar_group),
                                 ic_group_id := Some (group_key ic_group)\<rparr>) s2
                       in case for_each
                                 (\<lambda>a. for_each (\<lambda>i. start_group_child e parent a i)
                                        (loaded_members e ''start_group.ic_group'' ic_group))
                                 (loaded_members e ''start_group.avatar_group'' avatar_group) s3 of
                            Inl (err, s4) \<Rightarrow> (Error err, rollback s4)
                          | Inr s4 \<Rightarrow>
                              (Success (''Started group session '' @ str_nat (session_id parent)
                                 @ '' with ''
                                 @ str_nat (length (members avatar_group) * length (members ic_group))
                                 @ '' workers.''), s4)))))"

subsection \<open>Resolving targets\<close>

definition get_target_avatar_ids ::
  "Env \<Rightarrow> HealerDaemon \<Rightarrow> nat option \<Rightarrow> string option \<Rightarrow> string + nat list" where
  "get_target_avatar_ids e s avatar_id_arg avatar_group_name =
     (case (if truthy_id avatar_id_arg then avatar_id_arg else None) of
        Some n \<Rightarrow>
          (case get_avatar s (Some n) of
             None \<Rightarrow> Inl (''Avatar ID '' @ str_nat n @ '' not found.'')
           | Some a \<Rightarrow> Inr [n])
      | None \<Rightarrow>
          if truthy_name avatar_group_name then
            (case group_by_name (avatar_groups s) avatar_group_name of
               None \<Rightarrow> Inl (''Avatar group '' @ quoted (str_name avatar_group_name) @ '' not found.'')
             | Some g \<Rightarrow>
                 (let ids = loaded_members e ''get_target_avatar_ids'' g
                  in if ids = []
                     then Inl (''Avatar group '' @ quoted (str_name avatar_group_name) @ '' is empty.'')
                     else Inr ids))
          else Inl ''No target avatar or avatar group specified.'')"

definition get_target_request_ids ::
  "Env \<Rightarrow> HealerDaemon \<Rightarrow> nat option \<Rightarrow> string option \<Rightarrow> string + nat list" where
  "get_target_request_ids e s request_id_arg request_group_name =
     (case (if truthy_id request_id_arg then request_id_arg else None) of
        Some n \<Rightarrow>
          (case get_request s (Some n) of
             None \<Rightarrow> Inl (''Request ID '' @ str_nat n @ '' not found.'')
           | Some a \<Rightarrow> Inr [n])
      | None \<Rightarrow>
          if truthy_name request_group_name then
            (case group_by_name (request_groups s) request_group_name of
               None \<Rightarrow> Inl (''Request group '' @ quoted (str_name request_group_name) @ '' not found.'')
             | Some g \<Rightarrow>
                 (let ids = loaded_members e ''get_target_request_ids'' g
                  in if ids = []
                     then Inl (''Request group '' @ quoted (str_name request_group_name) @ '' is empty.'')
                     else Inr ids))
          else Inl ''No target request or request group specified.'')"

text \<open>The suffix \<open>f" (from Group Op #{parent_session.id})"\<close>, added when a parent exists.\<close>

definition from_group_op :: "Session option \<Rightarrow> string" where
  "from_group_op parent_session =
     (case parent_session of
        None \<Rightarrow> []
      | Some p \<Rightarrow> '' (from Group Op #'' @ str_nat (session_id p) @ '')'')"

text \<open>
  The parent of a start command, once its description and references are known: the
  constructor reads the clock, and the row is added and committed.
\<close>

definition add_parent ::
  "Env \<Rightarrow> int option \<Rightarrow> SessionType \<Rightarrow> (Session \<Rightarrow> Session) \<Rightarrow> HealerDaemon
     \<Rightarrow> (string \<times> HealerDaemon) + (Session option \<times> HealerDaemon)" where
  "add_parent e duration ty cols s =
     (case timed_session e duration ty RUNNING s of
        Inl err \<Rightarrow> Inl err
      | Inr (p0, s1) \<Rightarrow>
          (case db_add (cols (p0\<lparr>is_group_session := True\<rparr>)) s1 of
             (parent, s2) \<Rightarrow> Inr (Some parent, s2)))"

subsection \<open>start\_ic\<close>

record start_ic_data =
  si_avatar_id :: "nat option"
  si_avatar_group :: "string option"
  si_ic_id :: nat
  si_duration :: "int option"

definition start_ic_parent ::
  "Env \<Rightarrow> start_ic_data \<Rightarrow> InformationCopy \<Rightarrow> nat list \<Rightarrow> HealerDaemon
     \<Rightarrow> (string \<times> HealerDaemon) + (Session option \<times> HealerDaemon)" where
  "start_ic_parent e data ic target_avatar_ids s =
     (if length target_avatar_ids > 1 then
        (case group_by_name (avatar_groups s) (si_avatar_group data) of
           None \<Rightarrow> Inl (no_attribute ''name'', s)
         | Some avatar_group \<Rightarrow>
             (let desc = ''IC '' @ quoted (ic_name ic) @ '' on Avatar Group ''
                           @ quoted (group_name avatar_group)
              in add_parent e (si_duration data) IC_SESSION
                   (\<lambda>p. p\<lparr>description := Some desc,
                           avatar_group_id := Some (group_key avatar_group),
                           ic_id := Some (ic_key ic)\<rparr>) s))
      else Inr (None, s))"

definition start_ic_child ::
  "Env \<Rightarrow> start_ic_data \<Rightarrow> InformationCopy \<Rightarrow> Session option \<Rightarrow> nat \<Rightarrow> nat \<times> HealerDaemon
     \<Rightarrow> (string \<times> nat \<times> HealerDaemon) + nat \<times> HealerDaemon" where
  "start_ic_child e data ic parent_session a cs =
     (case cs of
        (created_sessions, s) \<Rightarrow>
          (case get_avatar s (Some a) of
             None \<Rightarrow> Inl (no_attribute ''name'', cs)
           | Some av \<Rightarrow>
               (case timed_session e (si_duration data) IC_SESSION SCHEDULED s of
                  Inl (err, s1) \<Rightarrow> Inl (err, created_sessions, s1)
                | Inr (c0, s1) \<Rightarrow>
                    (let child_desc = quoted (avatar_name av) @ '' <=> '' @ quoted (ic_name ic)
                             @ from_group_op parent_session
                     in Inr (Suc created_sessions,
                             add_and_spawn e
                               (c0\<lparr>parent_session_id := map_option session_id parent_session,
                                  avatar_id := Some a, ic_id := Some (si_ic_id data),
                                  description := Some child_desc\<rparr>) s1)))))"

definition handle_start_ic :: "Env \<Rightarrow> start_ic_data \<Rightarrow> HealerDaemon \<Rightarrow> reply \<times> HealerDaemon" where
  "handle_start_ic e data s =
     (case get_target_avatar_ids e s (si_avatar_id data) (si_avatar_group data) of
        Inl err \<Rightarrow> (Error err, rollback s)
      | Inr target_avatar_ids \<Rightarrow>
          (case get_ic s (Some (si_ic_id data)) of
             None \<Rightarrow> (Error (''IC '' @ str_nat (si_ic_id data) @ '' not found.''), rollback s)
           | Some ic \<Rightarrow>
               (case start_ic_parent e data ic target_avatar_ids s of
                  Inl (err, s1) \<Rightarrow> (Error err, rollback s1)
                | Inr (parent_session, s1) \<Rightarrow>
                    (case for_each (start_ic_child e data ic parent_session)
                            target_avatar_ids (0, s1) of
                       Inl (err, created_sessions, s2) \<Rightarrow> (Error err, rollback s2)
                     | Inr (created_sessions, s2) \<Rightarrow>
                         (Success (''Started '' @ str_nat created_sessions @ '' session(s).''), s2)))))"

subsection \<open>start\_request\<close>

record start_request_data =
  sr_avatar_id :: "nat option"
  sr_avatar_group :: "string option"
  sr_request_id :: "nat option"
  sr_request_group :: "string option"
  sr_duration :: "int option"

text \<open>
  The three branches that create the parent: both sides longer than one, only the avatar
  side, only the request side.  \<open>target_request_ids[0]\<close> and \<open>target_avatar_ids[0]\<close>
  raise IndexError on an empty list.
\<close>

definition start_request_parent ::
  "Env \<Rightarrow> start_request_data \<Rightarrow> nat list \<Rightarrow> nat list \<Rightarrow> HealerDaemon
     \<Rightarrow> (string \<times> HealerDaemon) + (Session option \<times> HealerDaemon)" where
  "start_request_parent e data target_avatar_ids target_request_ids s =
     (if length target_avatar_ids > 1 \<and> length target_request_ids > 1 then
        (case group_by_name (avatar_groups s) (sr_avatar_group data) of
           None \<Rightarrow> Inl (no_attribute ''name'', s)
         | Some avatar_group \<Rightarrow>
             (case group_by_name (request_groups s) (sr_request_group data) of
                None \<Rightarrow> Inl (no_attribute ''name'', s)
              | Some request_group \<Rightarrow>
                  (let desc = ''Request Group '' @ quoted (group_name request_group)
                                @ '' on Avatar Group '' @ quoted (group_name avatar_group)
                   in add_parent e (sr_duration data) REQUEST_SESSION
                        (\<lambda>p. p\<lparr>description := Some desc,
                                avatar_group_id := Some (group_key avatar_group),
                                request_group_id := Some (group_key request_group)\<rparr>) s)))
      else if length target_avatar_ids > 1 then
        (case group_by_name (avatar_groups s) (sr_avatar_group data) of
           None \<Rightarrow> Inl (no_attribute ''name'', s)
         | Some avatar_group \<Rightarrow>
             (case target_request_ids of
                [] \<Rightarrow> Inl (''list index out of range'', s)
              | r # _ \<Rightarrow>
                  (case get_request s (Some r) of
                     None \<Rightarrow> Inl (no_attribute ''name'', s)
                   | Some request \<Rightarrow>
                       (let desc = ''Request '' @ quoted (request_name request)
                                     @ '' on Avatar Group '' @ quoted (group_name avatar_group)
                        in add_parent e (sr_duration data) REQUEST_SESSION
                             (\<lambda>p. p\<lparr>description := Some desc,
                                     avatar_group_id := Some (group_key avatar_group),
                                     request_id := Some (request_key request)\<rparr>) s))))
      else if length target_request_ids > 1 then
        (case group_by_name (request_groups s) (sr_request_group data) of
           None \<Rightarrow> Inl (no_attribute ''name'', s)
         | Some request_group \<Rightarrow>
             (case target_avatar_ids of
                [] \<Rightarrow> Inl (''list index out of range'', s)
              | a # _ \<Rightarrow>
                  (case get_avatar s (Some a) of
                     None \<Rightarrow> Inl (no_attribute ''name'', s)
                   | Some avatar \<Rightarrow>
                       (let desc = ''Request Group '' @ quoted (group_name request_group)
                                     @ '' on Avatar '' @ quoted (avatar_name avatar)
                        in add_parent e (sr_duration data) REQUEST_SESSION
                             (\<lambda>p. p\<lparr>description := Some desc,
                                     request_group_id := Some (group_key request_group),
                                     avatar_id := Some (avatar_key avatar)\<rparr>) s))))
      else Inr (None, s))"

definition start_request_child ::
  "Env \<Rightarrow> start_request_data \<Rightarrow> Session option \<Rightarrow> nat \<Rightarrow> nat \<Rightarrow> nat \<times> HealerDaemon
     \<Rightarrow> (string \<times> nat \<times> HealerDaemon) + nat \<times> HealerDaemon" where
  "start_request_child e data parent_session a r cs =
     (case cs of
        (created_sessions, s) \<Rightarrow>
          (case get_avatar s (Some a) of
             None \<Rightarrow> Inl (no_attribute ''name'', cs)
           | Some av \<Rightarrow>
               (case get_request s (Some r) of
                  None \<Rightarrow> Inl (no_attribute ''name'', cs)
                | Some request \<Rightarrow>
                    (case timed_session e (sr_duration data) REQUEST_SESSION SCHEDULED s of
                       Inl (err, s1) \<Rightarrow> Inl (err, created_sessions, s1)
                     | Inr (c0, s1) \<Rightarrow>
                         (let child_desc = quoted (avatar_name av) @ '' <=> ''
                                  @ quoted (request_name request) @ from_group_op parent_session
                          in Inr (Suc created_sessions,
                                  add_and_spawn e
                                    (c0\<lparr>parent_session_id := map_option session_id parent_session,
                                       avatar_id := Some a, request_id := Some r,
                                       description := Some child_desc\<rparr>) s1))))))"

definition handle_start_request ::
  "Env \<Rightarrow> start_request_data \<Rightarrow> HealerDaemon \<Rightarrow> reply \<times> HealerDaemon" where
  "handle_start_request e data s =
     (case get_target_avatar_ids e s (sr_avatar_id data) (sr_avatar_group data) of
        Inl err \<Rightarrow> (Error err, rollback s)
      | Inr target_avatar_ids \<Rightarrow>
          (case get_target_request_ids e s (sr_request_id data) (sr_request_group data) of
             Inl err \<Rightarrow> (Error err, rollback s)
           | Inr target_request_ids \<Rightarrow>
               (case start_request_parent e data target_avatar_ids target_request_ids s of
                  Inl (err, s1) \<Rightarrow> (Error err, rollback s1)
                | Inr (parent_session, s1) \<Rightarrow>
                    (case for_each
                            (\<lambda>a. for_each (start_request_child e data parent_session a)
                                   target_request_ids)
                            target_avatar_ids (0, s1) of
                       Inl (err, created_sessions, s2) \<Rightarrow> (Error err, rollback s2)
                     | Inr (created_sessions, s2) \<Rightarrow>
                         (Success (''Started '' @ str_nat created_sessions
                                     @ '' request session(s).''), s2)))))"

subsection \<open>start\_link\<close>

record start_link_data =
  sl_source_id :: nat
  sl_dest_id :: "nat option"
  sl_dest_group :: "string option"
  sl_duration :: "int option"

definition start_link_parent ::
  "Env \<Rightarrow> start_link_data \<Rightarrow> Avatar \<Rightarrow> nat list \<Rightarrow> HealerDaemon
     \<Rightarrow> (string \<times> HealerDaemon) + (Session option \<times> HealerDaemon)" where
  "start_link_parent e data source_avatar dest_avatar_ids s =
     (if length dest_avatar_ids > 1 then
        (case group_by_name (avatar_groups s) (sl_dest_group data) of
           None \<Rightarrow> Inl (no_attribute ''name'', s)
         | Some dest_group \<Rightarrow>
             (let desc = ''Link from '' @ quoted (avatar_name source_avatar)
                           @ '' to Avatar Group '' @ quoted (group_name dest_group)
              in add_parent e (sl_duration data) AVATAR_LINK
                   (\<lambda>p. p\<lparr>description := Some desc,
                           avatar_id := Some (sl_source_id data),
                           avatar_group_id := Some (group_key dest_group)\<rparr>) s))
      else Inr (None, s))"

definition start_link_child ::
  "Env \<Rightarrow> start_link_data \<Rightarrow> Avatar \<Rightarrow> Session option \<Rightarrow> nat \<Rightarrow> nat \<times> HealerDaemon
     \<Rightarrow> (string \<times> nat \<times> HealerDaemon) + nat \<times> HealerDaemon" where
  "start_link_child e data source_avatar parent_session d cs =
     (case cs of
        (created_sessions, s) \<Rightarrow>
          if sl_source_id data = d then Inr cs
          else
            (case get_avatar s (Some d) of
               None \<Rightarrow> Inl (no_attribute ''name'', cs)
             | Some dest_avatar \<Rightarrow>
                 (case timed_session e (sl_duration data) AVATAR_LINK SCHEDULED s of
                    Inl (err, s1) \<Rightarrow> Inl (err, created_sessions, s1)
                  | Inr (c0, s1) \<Rightarrow>
                      (let child_desc = ''Link: '' @ quoted (avatar_name source_avatar) @ '' -> ''
                               @ quoted (avatar_name dest_avatar) @ from_group_op parent_session
                       in Inr (Suc created_sessions,
                               add_and_spawn e
                                 (c0\<lparr>parent_session_id := map_option session_id parent_session,
                                    avatar_id := Some (sl_source_id data),
                                    destination_avatar_id := Some d,
                                    description := Some child_desc\<rparr>) s1)))))"

definition handle_start_link :: "Env \<Rightarrow> start_link_data \<Rightarrow> HealerDaemon \<Rightarrow> reply \<times> HealerDaemon" where
  "handle_start_link e data s =
     (case get_target_avatar_ids e s (sl_dest_id data) (sl_dest_group data) of
        Inl err \<Rightarrow> (Error err, rollback s)
      | Inr dest_avatar_ids \<Rightarrow>
          (case get_avatar s (Some (sl_source_id data)) of
             None \<Rightarrow> (Error (''Source Avatar '' @ str_nat (sl_source_id data) @ '' not found.''),
                      rollback s)
           | Some source_avatar \<Rightarrow>
               (case start_link_parent e data source_avatar dest_avatar_ids s of
                  Inl (err, s1) \<Rightarrow> (Error err, rollback s1)
                | Inr (parent_session, s1) \<Rightarrow>
                    (case for_each (start_link_child e data source_avatar parent_session)
                            dest_avatar_ids (0, s1) of
                       Inl (err, created_sessions, s2) \<Rightarrow> (Error err, rollback s2)
                     | Inr (created_sessions, s2) \<Rightarrow>
                         (Success (''Started '' @ str_nat created_sessions
                                     @ '' link session(s).''), s2)))))"

section \<open>stop\_session\<close>

text \<open>
  The loop of \<open>handle_stop_session\<close> over \<open>sessions_to_stop\<close>: the status is read from
  the object, and \<open>stopped_count\<close> counts the calls of \<open>_stop_single_session\<close> that
  returned True.  The sessions stopped have different keys, so the order in which
  \<open>child_sessions\<close> is loaded does not show in the result; the loop takes them in the
  order of the table.  The handler has no \<open>try\<close> block.
\<close>

definition stop_if_running :: "nat \<Rightarrow> nat \<times> HealerDaemon \<Rightarrow> nat \<times> HealerDaemon" where
  "stop_if_running k cs =
     (case cs of
        (stopped_count, s) \<Rightarrow>
          (case get_session s k of
             None \<Rightarrow> cs
           | Some x \<Rightarrow>
               if attr_status s x = RUNNING then
                 (case stop_single_session k s of
                    (stopped, s') \<Rightarrow> (if stopped then Suc stopped_count else stopped_count, s'))
               else cs))"

definition child_sessions :: "HealerDaemon \<Rightarrow> nat \<Rightarrow> Session list" where
  "child_sessions s k = filter (\<lambda>x. parent_session_id x = Some k) (sessions s)"

definition handle_stop_session :: "nat option \<Rightarrow> HealerDaemon \<Rightarrow> reply \<times> HealerDaemon" where
  "handle_stop_session session_id_arg s =
     (case (case session_id_arg of None \<Rightarrow> None | Some k \<Rightarrow> get_session s k) of
        None \<Rightarrow> (Error (''Session '' @ str_id session_id_arg @ '' not found.''), s)
      | Some session \<Rightarrow>
          (let sessions_to_stop =
                 session # (if is_group_session session \<or> parent_session_id session = None
                            then child_sessions s (session_id session) else []);
               (stopped_count, s1) = fold stop_if_running (map session_id sessions_to_stop) (0, s);
               s2 = commit_session (session_id session) (\<lambda>y. y\<lparr>status := STOPPED\<rparr>) s1
           in (Success (''Stopped '' @ str_nat stopped_count @ '' session(s).''), s2)))"

section \<open>Group membership\<close>

record member_data =
  md_group_type :: string
  md_group_name :: string
  md_member_id :: nat

definition add_member :: "nat \<Rightarrow> nat \<Rightarrow> Group list \<Rightarrow> Group list" where
  "add_member k m gs = map (\<lambda>g. if group_key g = k then g\<lparr>members := members g @ [m]\<rparr> else g) gs"

definition remove_member :: "nat \<Rightarrow> nat \<Rightarrow> Group list \<Rightarrow> Group list" where
  "remove_member k m gs =
     map (\<lambda>g. if group_key g = k then g\<lparr>members := removeAll m (members g)\<rparr> else g) gs"

subsection \<open>add\_member\_to\_group, group type \<open>ic\<close>\<close>

text \<open>
  The body of the loop over \<open>active_group_sessions\<close> in the \<open>ic\<close> branch: for every
  member of the parent's avatar group the counter \<open>new_workers\<close> is incremented, and
  nothing else is done.
\<close>

definition add_ic_member_parent ::
  "Session \<Rightarrow> nat \<times> HealerDaemon \<Rightarrow> (string \<times> nat \<times> HealerDaemon) + nat \<times> HealerDaemon" where
  "add_ic_member_parent parent_session cs =
     (case cs of
        (new_workers, s) \<Rightarrow>
          (case group_by_key (avatar_groups s) (avatar_group_id parent_session) of
             None \<Rightarrow> Inl (no_attribute ''members'', cs)
           | Some avatar_group \<Rightarrow>
               Inr (fold (\<lambda>avatar_member n. Suc n) (members avatar_group) new_workers, s)))"

text \<open>
  In the three branches of \<open>handle_add_member_to_group\<close> the replies for a missing group,
  a missing member and a member already present are plain returns; an exception in a
  loop is answered after a rollback.  The membership row is added and committed before
  the running group sessions are queried.
\<close>

definition add_ic_member :: "Env \<Rightarrow> member_data \<Rightarrow> HealerDaemon \<Rightarrow> reply \<times> HealerDaemon" where
  "add_ic_member e data s =
     (case group_by_name (ic_groups s) (Some (md_group_name data)) of
        None \<Rightarrow> (Error (''IC group '' @ quoted (md_group_name data) @ '' not found.''), s)
      | Some g \<Rightarrow>
          if get_ic s (Some (md_member_id data)) = None
          then (Error (''IC '' @ str_nat (md_member_id data) @ '' not found.''), s)
          else if md_member_id data \<in> set (members g)
          then (Success (''IC '' @ str_nat (md_member_id data) @ '' is already in group ''
                           @ quoted (md_group_name data) @ ''.''), s)
          else
            (let s1 = (commit s)\<lparr>ic_groups :=
                                   add_member (group_key g) (md_member_id data) (ic_groups s)\<rparr>;
                 active_group_sessions =
                   query_all e ''add_member_to_group.ic''
                     (filter (\<lambda>x. is_group_session x \<and> status x = RUNNING
                                   \<and> ic_group_id x = Some (group_key g)) (sessions s1))
             in case for_each add_ic_member_parent active_group_sessions (0, s1) of
                  Inl (err, new_workers, s2) \<Rightarrow> (Error err, rollback s2)
                | Inr (new_workers, s2) \<Rightarrow>
                    (Success (''Added IC '' @ str_nat (md_member_id data) @ '' to group ''
                        @ quoted (md_group_name data) @ ''. Started '' @ str_nat new_workers
                        @ '' new live session(s).''), s2)))"

subsection \<open>add\_member\_to\_group, group type \<open>avatar\<close>\<close>

text \<open>Case 1, one iteration of the loop over \<open>parent_session.ic_group.members\<close>.\<close>

definition add_avatar_member_ic_child ::
  "Env \<Rightarrow> Avatar \<Rightarrow> Session \<Rightarrow> nat \<Rightarrow> nat \<times> HealerDaemon
     \<Rightarrow> (string \<times> nat \<times> HealerDaemon) + nat \<times> HealerDaemon" where
  "add_avatar_member_ic_child e new_member_avatar parent_session i cs =
     (case cs of
        (new_workers, s) \<Rightarrow>
          (case get_ic s (Some i) of
             None \<Rightarrow> Inl (no_attribute ''name'', cs)
           | Some ic \<Rightarrow>
               (let child_desc = quoted (avatar_name new_member_avatar) @ '' <=> ''
                        @ quoted (ic_name ic) @ '' (from Group Session #''
                        @ str_nat (session_id parent_session) @ '')''
                in Inr (Suc new_workers,
                        add_and_spawn e
                          ((Session_init IC_SESSION (start_time parent_session)
                              (end_time parent_session) SCHEDULED)
                             \<lparr>parent_session_id := Some (session_id parent_session),
                              avatar_id := Some (avatar_key new_member_avatar),
                              ic_id := Some i, description := Some child_desc\<rparr>) s))))"

text \<open>The body of the loop over \<open>active_group_sessions\<close>, with its four cases in order.\<close>

definition add_avatar_member_parent ::
  "Env \<Rightarrow> Avatar \<Rightarrow> Session \<Rightarrow> nat \<times> HealerDaemon
     \<Rightarrow> (string \<times> nat \<times> HealerDaemon) + nat \<times> HealerDaemon" where
  "add_avatar_member_parent e new_member_avatar parent_session cs =
     (case cs of
        (new_workers, s) \<Rightarrow>
          if session_type parent_session = GROUP_IC_SESSION then
            (case group_by_key (ic_groups s) (ic_group_id parent_session) of
               None \<Rightarrow> Inr cs
             | Some ic_group \<Rightarrow>
                 for_each (add_avatar_member_ic_child e new_member_avatar parent_session)
                   (loaded_members e ''add_member_to_group.ic_group'' ic_group) cs)
          else if session_type parent_session = IC_SESSION
                  \<and> get_ic s (ic_id parent_session) \<noteq> None then
            (let child_desc = quoted (avatar_name new_member_avatar) @ '' <=> ''
                     @ quoted (case get_ic s (ic_id parent_session) of
                                 None \<Rightarrow> [] | Some ic \<Rightarrow> ic_name ic)
                     @ '' (from Group Op #'' @ str_nat (session_id parent_session) @ '')''
             in Inr (Suc new_workers,
                     add_and_spawn e
                       ((Session_init IC_SESSION (start_time parent_session)
                           (end_time parent_session) SCHEDULED)
                          \<lparr>parent_session_id := Some (session_id parent_session),
                           avatar_id := Some (avatar_key new_member_avatar),
                           ic_id := ic_id parent_session,
                           description := Some child_desc\<rparr>) s))
          else if session_type parent_session = REQUEST_SESSION
                  \<and> get_request s (request_id parent_session) \<noteq> None then
            (let child_desc = quoted (avatar_name new_member_avatar) @ '' <=> ''
                     @ quoted (case get_request s (request_id parent_session) of
                                 None \<Rightarrow> [] | Some r \<Rightarrow> request_name r)
                     @ '' (from Group Op #'' @ str_nat (session_id parent_session) @ '')''
             in Inr (Suc new_workers,
                     add_and_spawn e
                       ((Session_init REQUEST_SESSION (start_time parent_session)
                           (end_time parent_session) SCHEDULED)
                          \<lparr>parent_session_id := Some (session_id parent_session),
                           avatar_id := Some (avatar_key new_member_avatar),
                           request_id := request_id parent_session,
                           description := Some child_desc\<rparr>) s))
          else if session_type parent_session = AVATAR_LINK
                  \<and> get_avatar s (avatar_id parent_session) \<noteq> None then
            (let child_desc = ''Link: ''
                     @ quoted (case get_avatar s (avatar_id parent_session) of
                                 None \<Rightarrow> [] | Some a \<Rightarrow> avatar_name a)
                     @ '' -> '' @ quoted (avatar_name new_member_avatar)
                     @ '' (from Group Op #'' @ str_nat (session_id parent_session) @ '')''
             in Inr (Suc new_workers,
                     add_and_spawn e
                       ((Session_init AVATAR_LINK (start_time parent_session)
                           (end_time parent_session) SCHEDULED)
                          \<lparr>parent_session_id := Some (session_id parent_session),
                           avatar_id := avatar_id parent_session,
                           destination_avatar_id := Some (avatar_key new_member_avatar),
                           description := Some child_desc\<rparr>) s))
          else Inr cs)"

definition add_avatar_member :: "Env \<Rightarrow> member_data \<Rightarrow> HealerDaemon \<Rightarrow> reply \<times> HealerDaemon" where
  "add_avatar_member e data s =
     (case group_by_name (avatar_groups s) (Some (md_group_name data)) of
        None \<Rightarrow> (Error (''Avatar group '' @ quoted (md_group_name data) @ '' not found.''), s)
      | Some g \<Rightarrow>
          (case get_avatar s (Some (md_member_id data)) of
             None \<Rightarrow> (Error (''Avatar '' @ str_nat (md_member_id data) @ '' not found.''), s)
           | Some new_member_avatar \<Rightarrow>
               if md_member_id data \<in> set (members g)
               then (Success (''Avatar '' @ str_nat (md_member_id data) @ '' is already in group ''
                                @ quoted (md_group_name data) @ ''.''), s)
               else
                 (let s1 = (commit s)\<lparr>avatar_groups :=
                               add_member (group_key g) (md_member_id data) (avatar_groups s)\<rparr>;
                      active_group_sessions =
                        query_all e ''add_member_to_group.avatar''
                          (filter (\<lambda>x. is_group_session x \<and> status x = RUNNING
                                        \<and> avatar_group_id x = Some (group_key g)) (sessions s1))
                  in case for_each (add_avatar_member_parent e new_member_avatar)
                            active_group_sessions (0, s1) of
                       Inl (err, new_workers, s2) \<Rightarrow> (Error err, rollback s2)
                     | Inr (new_workers, s2) \<Rightarrow>
                         (Success (''Added Avatar '' @ str_nat (md_member_id data) @ '' to group ''
                             @ quoted (md_group_name data) @ ''. Started '' @ str_nat new_workers
                             @ '' new live session(s).''), s2))))"

subsection \<open>add\_member\_to\_group, group type \<open>request\<close>\<close>

definition add_request_member :: "member_data \<Rightarrow> HealerDaemon \<Rightarrow> reply \<times> HealerDaemon" where
  "add_request_member data s =
     (case group_by_name (request_groups s) (Some (md_group_name data)) of
        None \<Rightarrow> (Error (''Request group '' @ quoted (md_group_name data) @ '' not found.''), s)
      | Some g \<Rightarrow>
          if get_request s (Some (md_member_id data)) = None
          then (Error (''Request '' @ str_nat (md_member_id data) @ '' not found.''), s)
          else if md_member_id data \<in> set (members g)
          then (Success (''Request '' @ str_nat (md_member_id data) @ '' is already in group ''
                           @ quoted (md_group_name data) @ ''.''), s)
          else
            (Success (''Added Request '' @ str_nat (md_member_id data) @ '' to group ''
                        @ quoted (md_group_name data) @ ''. No new sessions started.''),
             (commit s)\<lparr>request_groups :=
                  add_member (group_key g) (md_member_id data) (request_groups s)\<rparr>))"

definition handle_add_member_to_group ::
  "Env \<Rightarrow> member_data \<Rightarrow> HealerDaemon \<Rightarrow> reply \<times> HealerDaemon" where
  "handle_add_member_to_group e data s =
     (if md_group_type data = ''ic'' then add_ic_member e data s
      else if md_group_type data = ''avatar'' then add_avatar_member e data s
      else if md_group_type data = ''request'' then add_request_member data s
      else (Null_reply, s))"

subsection \<open>remove\_member\_from\_group\<close>

text \<open>
  \<open>Session.parent_session.has(is_group_session=True, status=RUNNING, <group column>=group.id)\<close>
  for the group column \<open>col\<close>, a filter on the stored rows.
\<close>

definition parent_has_running_group ::
  "HealerDaemon \<Rightarrow> (Session \<Rightarrow> nat option) \<Rightarrow> nat \<Rightarrow> Session \<Rightarrow> bool" where
  "parent_has_running_group s col gk x =
     (case parent_session_id x of
        None \<Rightarrow> False
      | Some pk \<Rightarrow>
          (case get_session s pk of
             None \<Rightarrow> False
           | Some p \<Rightarrow> is_group_session p \<and> status p = RUNNING \<and> col p = Some gk))"

definition stop_counting :: "nat \<Rightarrow> nat \<times> HealerDaemon \<Rightarrow> nat \<times> HealerDaemon" where
  "stop_counting k cs =
     (case cs of
        (stopped_count, s) \<Rightarrow>
          (case stop_single_session k s of
             (stopped, s') \<Rightarrow> (if stopped then Suc stopped_count else stopped_count, s')))"

text \<open>
  The loops that stop or fail a list of sessions act on one key each; the sessions are
  taken in the order of the table.  \<open>delete(member_record); commit()\<close> ends the handler.
\<close>

definition remove_ic_member :: "member_data \<Rightarrow> HealerDaemon \<Rightarrow> reply \<times> HealerDaemon" where
  "remove_ic_member data s =
     (case group_by_name (ic_groups s) (Some (md_group_name data)) of
        None \<Rightarrow> (Error (''IC group '' @ quoted (md_group_name data) @ '' not found.''), s)
      | Some g \<Rightarrow>
          if md_member_id data \<notin> set (members g)
          then (Success (''IC '' @ str_nat (md_member_id data) @ '' was not in group ''
                           @ quoted (md_group_name data) @ ''.''), s)
          else
            (let sessions_to_stop =
                   filter (\<lambda>x. parent_has_running_group s ic_group_id (group_key g) x
                                \<and> ic_id x = Some (md_member_id data)) (sessions s);
                 (stopped_count, s1) = fold stop_counting (map session_id sessions_to_stop) (0, s)
             in (Success (''Removed IC '' @ str_nat (md_member_id data) @ '' from group ''
                    @ quoted (md_group_name data) @ ''. Stopped '' @ str_nat stopped_count
                    @ '' live session(s).''),
                 (commit s1)\<lparr>ic_groups :=
                      remove_member (group_key g) (md_member_id data) (ic_groups s1)\<rparr>)))"

definition remove_avatar_member :: "member_data \<Rightarrow> HealerDaemon \<Rightarrow> reply \<times> HealerDaemon" where
  "remove_avatar_member data s =
     (case group_by_name (avatar_groups s) (Some (md_group_name data)) of
        None \<Rightarrow> (Error (''Avatar group '' @ quoted (md_group_name data) @ '' not found.''), s)
      | Some g \<Rightarrow>
          if md_member_id data \<notin> set (members g)
          then (Success (''Avatar '' @ str_nat (md_member_id data) @ '' was not in group ''
                           @ quoted (md_group_name data) @ ''.''), s)
          else
            (let sessions_to_stop =
                   filter (\<lambda>x. parent_has_running_group s avatar_group_id (group_key g) x
                                \<and> avatar_id x = Some (md_member_id data)) (sessions s);
                 (stopped_count, s1) = fold stop_counting (map session_id sessions_to_stop) (0, s)
             in (Success (''Removed Avatar '' @ str_nat (md_member_id data) @ '' from group ''
                    @ quoted (md_group_name data) @ ''. Stopped '' @ str_nat stopped_count
                    @ '' live session(s).''),
                 (commit s1)\<lparr>avatar_groups :=
                      remove_member (group_key g) (md_member_id data) (avatar_groups s1)\<rparr>)))"

definition remove_request_member :: "member_data \<Rightarrow> HealerDaemon \<Rightarrow> reply \<times> HealerDaemon" where
  "remove_request_member data s =
     (case group_by_name (request_groups s) (Some (md_group_name data)) of
        None \<Rightarrow> (Error (''Request group '' @ quoted (md_group_name data) @ '' not found.''), s)
      | Some g \<Rightarrow>
          if md_member_id data \<notin> set (members g)
          then (Success (''Request '' @ str_nat (md_member_id data) @ '' was not in group ''
                           @ quoted (md_group_name data) @ ''.''), s)
          else
            (let sessions_to_stop =
                   filter (\<lambda>x. parent_has_running_group s request_group_id (group_key g) x
                                \<and> request_id x = Some (md_member_id data)) (sessions s);
                 (stopped_count, s1) = fold stop_counting (map session_id sessions_to_stop) (0, s)
             in (Success (''Removed Request '' @ str_nat (md_member_id data) @ '' from group ''
                    @ quoted (md_group_name data) @ ''. Stopped '' @ str_nat stopped_count
                    @ '' live session(s).''),
                 (commit s1)\<lparr>request_groups :=
                      remove_member (group_key g) (md_member_id data) (request_groups s1)\<rparr>)))"

definition handle_remove_member_from_group :: "member_data \<Rightarrow> HealerDaemon \<Rightarrow> reply \<times> HealerDaemon" where
  "handle_remove_member_from_group data s =
     (if md_group_type data = ''ic'' then remove_ic_member data s
      else if md_group_type data = ''avatar'' then remove_avatar_member data s
      else if md_group_type data = ''request'' then remove_request_member data s
      else (Null_reply, s))"

section \<open>Removing entities and groups\<close>

record entity_data =
  ed_entity_type :: string
  ed_id :: nat

text \<open>
  \<open>db_session.delete(avatar)\<close>: the relationships \<open>source_sessions\<close>, \<open>dest_sessions\<close> and
  \<open>groups\<close> of \<open>Avatar\<close> and \<open>child_sessions\<close> of \<open>Session\<close> are declared with
  \<open>cascade="all, delete-orphan"\<close>, so the sessions that reference the avatar go with it,
  and so do their children, to any depth.  \<open>delete_closure n xs ks\<close> adds the children
  of the keys \<open>ks\<close> n times; the length of the table bounds the depth.
\<close>

fun delete_closure :: "nat \<Rightarrow> Session list \<Rightarrow> nat list \<Rightarrow> nat list" where
  "delete_closure 0 xs ks = ks"
| "delete_closure (Suc n) xs ks =
     delete_closure n xs
       (ks @ map session_id
               (filter (\<lambda>x. session_id x \<notin> set ks
                            \<and> (case parent_session_id x of
                                 None \<Rightarrow> False | Some pk \<Rightarrow> pk \<in> set ks)) xs))"

definition delete_avatar :: "nat \<Rightarrow> HealerDaemon \<Rightarrow> HealerDaemon" where
  "delete_avatar k s =
     (let doomed = delete_closure (length (sessions s)) (sessions s)
                     (map session_id
                        (filter (\<lambda>x. avatar_id x = Some k \<or> destination_avatar_id x = Some k)
                           (sessions s)))
      in s\<lparr>avatars := filter (\<lambda>a. avatar_key a \<noteq> k) (avatars s),
            avatar_groups := map (\<lambda>g. g\<lparr>members := removeAll k (members g)\<rparr>) (avatar_groups s),
            sessions := filter (\<lambda>x. session_id x \<notin> set doomed) (sessions s)\<rparr>)"

text \<open>
  \<open>handle_remove_entity\<close>.  For \<open>ic\<close> and \<open>request\<close> the row is an \<open>InformationCopy\<close>
  or a \<open>Request\<close>; these classes declare \<open>sessions\<close> and \<open>groups\<close> only, so
  \<open>entity.source_sessions\<close> raises AttributeError, which the handler's \<open>except\<close> turns
  into an error reply after a rollback.  The replies for an unknown type and for a
  missing row are plain returns.  On the avatar path the sessions are stopped in the
  order of the table, then \<open>delete(entity); commit()\<close>.
\<close>

definition handle_remove_entity :: "entity_data \<Rightarrow> HealerDaemon \<Rightarrow> reply \<times> HealerDaemon" where
  "handle_remove_entity data s =
     (if ed_entity_type data = ''avatar'' then
        (case get_avatar s (Some (ed_id data)) of
           None \<Rightarrow> (Success (ed_entity_type data @ '' '' @ str_nat (ed_id data)
                               @ '' already deleted.''), s)
         | Some entity \<Rightarrow>
             (let sessions_to_stop =
                    filter (\<lambda>x. avatar_id x = Some (ed_id data)) (sessions s)
                    @ filter (\<lambda>x. destination_avatar_id x = Some (ed_id data)) (sessions s);
                  (stopped_count, s1) = fold stop_counting (map session_id sessions_to_stop) (0, s);
                  s2 = delete_avatar (ed_id data) (commit s1)
              in (Success (''Stopped '' @ str_nat stopped_count @ '' session(s) and removed ''
                     @ ed_entity_type data @ '' '' @ str_nat (ed_id data) @ ''.''),
                  s2\<lparr>avatar_cache := (avatar_cache s2)(ed_id data := None)\<rparr>)))
      else if ed_entity_type data = ''ic'' then
        (case get_ic s (Some (ed_id data)) of
           None \<Rightarrow> (Success (ed_entity_type data @ '' '' @ str_nat (ed_id data)
                               @ '' already deleted.''), s)
         | Some entity \<Rightarrow>
             (Error (quoted ''InformationCopy'' @ '' object has no attribute ''
                       @ quoted ''source_sessions''), rollback s))
      else if ed_entity_type data = ''request'' then
        (case get_request s (Some (ed_id data)) of
           None \<Rightarrow> (Success (ed_entity_type data @ '' '' @ str_nat (ed_id data)
                               @ '' already deleted.''), s)
         | Some entity \<Rightarrow>
             (Error (quoted ''Request'' @ '' object has no attribute ''
                       @ quoted ''source_sessions''), rollback s))
      else (Error ''Removal for this entity type not implemented.'', s))"

record group_data =
  gd_group_type :: string
  gd_group_name :: string

text \<open>
  \<open>db_session.delete(group); db_session.commit()\<close>: the member rows go with the group
  (\<open>cascade="all, delete-orphan"\<close> on \<open>members\<close>); the relationship \<open>sessions\<close> has no
  delete cascade, so the group reference of every session bound to the group is set to
  NULL.  No session is stopped.
\<close>

definition delete_group :: "nat \<Rightarrow> Group list \<Rightarrow> Group list" where
  "delete_group k gs = filter (\<lambda>g. group_key g \<noteq> k) gs"

definition handle_remove_group :: "group_data \<Rightarrow> HealerDaemon \<Rightarrow> reply \<times> HealerDaemon" where
  "handle_remove_group data s =
     (let gone = (Success (''Group '' @ quoted (gd_group_name data)
                            @ '' not found or already deleted.''), s);
          removed = Success (''Group '' @ quoted (gd_group_name data)
                            @ '' and all its memberships have been deleted.'');
          s0 = commit s
      in if gd_group_type data = ''avatar'' then
           (case group_by_name (avatar_groups s) (Some (gd_group_name data)) of
              None \<Rightarrow> gone
            | Some g \<Rightarrow>
                (removed,
                 s0\<lparr>avatar_groups := delete_group (group_key g) (avatar_groups s),
                    sessions := map (\<lambda>x. if avatar_group_id x = Some (group_key g)
                                          then x\<lparr>avatar_group_id := None\<rparr> else x) (sessions s0)\<rparr>))
         else if gd_group_type data = ''ic'' then
           (case group_by_name (ic_groups s) (Some (gd_group_name data)) of
              None \<Rightarrow> gone
            | Some g \<Rightarrow>
                (removed,
                 s0\<lparr>ic_groups := delete_group (group_key g) (ic_groups s),
                    sessions := map (\<lambda>x. if ic_group_id x = Some (group_key g)
                                          then x\<lparr>ic_group_id := None\<rparr> else x) (sessions s0)\<rparr>))
         else if gd_group_type data = ''request'' then
           (case group_by_name (request_groups s) (Some (gd_group_name data)) of
              None \<Rightarrow> gone
            | Some g \<Rightarrow>
                (removed,
                 s0\<lparr>request_groups := delete_group (group_key g) (request_groups s),
                    sessions := map (\<lambda>x. if request_group_id x = Some (group_key g)
                                          then x\<lparr>request_group_id := None\<rparr> else x) (sessions s0)\<rparr>))
         else (Error (''Unknown group type '' @ quoted (gd_group_type data)), s))"

section \<open>Failing and redoing sessions\<close>

record fail_data =
  fd_avatar_id :: "nat option"
  fd_avatar_group :: "string option"

definition fail_counting :: "nat \<Rightarrow> nat \<times> HealerDaemon \<Rightarrow> nat \<times> HealerDaemon" where
  "fail_counting k cs =
     (case cs of
        (failed_count, s) \<Rightarrow>
          (case fail_single_session k s of
             (failed, s') \<Rightarrow> (if failed then Suc failed_count else failed_count, s')))"

text \<open>
  \<open>handle_fail_sessions_on_target\<close>.  With a group name, every session bound to the
  avatar group is found "regardless of status" and FAILED is assigned to its status; the
  running children of these sessions and, with an avatar id, the running sessions on the
  avatar are collected in the set \<open>sessions_to_fail\<close> (both queries filter on the stored
  statuses).  When the set is empty the handler returns without commit and the
  assignments stay pending.  Otherwise the sessions of the set are failed one by one, in
  the order of the table, and the handler commits.
\<close>

definition handle_fail_sessions_on_target :: "fail_data \<Rightarrow> HealerDaemon \<Rightarrow> reply \<times> HealerDaemon" where
  "handle_fail_sessions_on_target data s =
     (let identifier =
            (if truthy_name (fd_avatar_group data)
             then ''group '' @ quoted (str_name (fd_avatar_group data))
             else ''avatar ID '' @ str_id (fd_avatar_id data));
          group = group_by_name (avatar_groups s) (fd_avatar_group data)
      in if truthy_name (fd_avatar_group data) \<and> group = None
         then (Error (''Avatar group '' @ quoted (str_name (fd_avatar_group data))
                        @ '' not found.''), s)
         else
           (let parent_sessions =
                  (case (if truthy_name (fd_avatar_group data) then group else None) of
                     None \<Rightarrow> []
                   | Some g \<Rightarrow> filter (\<lambda>x. avatar_group_id x = Some (group_key g)) (sessions s));
                parent_session_ids = map session_id parent_sessions;
                child_sessions =
                  filter (\<lambda>x. (case parent_session_id x of
                                  None \<Rightarrow> False | Some pk \<Rightarrow> pk \<in> set parent_session_ids)
                               \<and> status x = RUNNING) (sessions s);
                direct_sessions =
                  (if truthy_id (fd_avatar_id data)
                   then filter (\<lambda>x. status x = RUNNING
                                     \<and> (avatar_id x = fd_avatar_id data
                                          \<or> destination_avatar_id x = fd_avatar_id data))
                          (sessions s)
                   else []);
                sessions_to_fail = remdups (map session_id (child_sessions @ direct_sessions));
                s1 = s\<lparr>pending_failed := parent_session_ids @ pending_failed s\<rparr>
            in if sessions_to_fail = []
               then (Success (''No running sessions found for '' @ identifier @ ''.''), s1)
               else
                 (case fold fail_counting sessions_to_fail (0, s1) of
                    (failed_count, s2) \<Rightarrow>
                      (Success (''Set '' @ str_nat failed_count @ '' running session(s) for ''
                                  @ identifier @ '' to FAILED.''), commit s2))))"

text \<open>
  \<open>handle_fail_all_running_sessions\<close> returns without commit when the query finds no
  stored RUNNING status.
\<close>

definition handle_fail_all_running_sessions :: "HealerDaemon \<Rightarrow> reply \<times> HealerDaemon" where
  "handle_fail_all_running_sessions s =
     (let running_sessions = filter (\<lambda>x. status x = RUNNING) (sessions s)
      in if running_sessions = []
         then (Success ''No running sessions to fail.'', s)
         else
           (case fold fail_counting (map session_id running_sessions) (0, s) of
              (failed_count, s1) \<Rightarrow>
                (Success (''Successfully failed '' @ str_nat failed_count
                            @ '' running session(s).''), s1)))"

text \<open>
  One iteration of the loop of \<open>handle_redo_failed_sessions\<close> over the sessions whose
  stored status was FAILED when the handler started.  The new row copies
  \<open>parent_session_id\<close>, \<open>is_group_session\<close>, \<open>avatar_id\<close>, \<open>ic_id\<close>, \<open>request_id\<close>,
  \<open>destination_avatar_id\<close>, \<open>avatar_group_id\<close>, \<open>ic_group_id\<close>, \<open>session_type\<close> and
  \<open>end_time\<close>, as the constructor call lists them; \<open>request_group_id\<close> is not passed
  and gets the column default.
\<close>

definition redo_session :: "Env \<Rightarrow> Session \<Rightarrow> nat \<times> HealerDaemon \<Rightarrow> nat \<times> HealerDaemon" where
  "redo_session e old_session cs =
     (case cs of
        (restarted_count, s) \<Rightarrow>
          if is_group_session old_session
          then (restarted_count,
                commit_session (session_id old_session) (\<lambda>y. y\<lparr>status := RESTARTED\<rparr>) s)
          else
            (case utcnow e s of
               (now, s1) \<Rightarrow>
                 (let new_session =
                        (Session_init (session_type old_session) now (end_time old_session) SCHEDULED)
                          \<lparr>parent_session_id := parent_session_id old_session,
                           is_group_session := is_group_session old_session,
                           description := Some (''[REDO] '' @ str_name (description old_session)),
                           avatar_id := avatar_id old_session,
                           ic_id := ic_id old_session,
                           request_id := request_id old_session,
                           destination_avatar_id := destination_avatar_id old_session,
                           avatar_group_id := avatar_group_id old_session,
                           ic_group_id := ic_group_id old_session\<rparr>;
                      s2 = add_and_spawn e new_session s1
                  in (Suc restarted_count,
                      commit_session (session_id old_session) (\<lambda>y. y\<lparr>status := RESTARTED\<rparr>) s2))))"

definition handle_redo_failed_sessions :: "Env \<Rightarrow> HealerDaemon \<Rightarrow> reply \<times> HealerDaemon" where
  "handle_redo_failed_sessions e s =
     (let failed_sessions =
            query_all e ''redo_failed'' (filter (\<lambda>x. status x = FAILED) (sessions s))
      in if failed_sessions = []
         then (Success ''No failed sessions found to restart.'', s)
         else
           (case fold (redo_session e) failed_sessions (0, s) of
              (restarted_count, s1) \<Rightarrow>
                (Success (''Successfully restarted '' @ str_nat restarted_count
                            @ '' failed session(s).''), s1)))"

section \<open>update\_entity and view\_running\_on\<close>

text \<open>
  \<open>photo_data_b64\<close> is absent (None), fails to decode (\<open>Inl\<close> with the message of the
  exception) or decodes to bytes (\<open>Inr\<close>); \<open>info_data\<close> is absent or a text.
\<close>

record update_data =
  ud_entity_type :: string
  ud_id :: nat
  ud_photo_data_b64 :: "(string + string) option"
  ud_info_data :: "string option"

text \<open>
  One iteration of the loop over \<open>affected_sessions\<close>.  \<open>db_session.refresh(session)\<close>
  reloads a row that the commit before the loop has just written.
\<close>

definition restart_counting :: "Env \<Rightarrow> nat \<Rightarrow> nat \<times> HealerDaemon \<Rightarrow> nat \<times> HealerDaemon" where
  "restart_counting e k cs =
     (case cs of
        (restarted_count, s) \<Rightarrow>
          (case stop_single_session k s of
             (stopped, s1) \<Rightarrow>
               if stopped then (Suc restarted_count, spawn_worker_for_session e k s1)
               else (restarted_count, s1)))"

definition handle_update_entity :: "Env \<Rightarrow> update_data \<Rightarrow> HealerDaemon \<Rightarrow> reply \<times> HealerDaemon" where
  "handle_update_entity e data s =
     (if ud_entity_type data = ''avatar'' then
        (case get_avatar s (Some (ud_id data)) of
           None \<Rightarrow> (Error (''Avatar '' @ str_nat (ud_id data) @ '' not found.''), s)
         | Some avatar \<Rightarrow>
             (case ud_photo_data_b64 data of
                Some (Inl err) \<Rightarrow> (Error err, rollback s)
              | photo \<Rightarrow>
                  (let set_photo = (\<lambda>a. case photo of
                                           Some (Inr b) \<Rightarrow> a\<lparr>photo_data := b\<rparr> | _ \<Rightarrow> a);
                       set_info = (\<lambda>a. case ud_info_data data of
                                          Some i \<Rightarrow> a\<lparr>info_data := i\<rparr> | None \<Rightarrow> a);
                       s1 = (commit s)\<lparr>avatars := map (\<lambda>a. if avatar_key a = ud_id data
                                                    then set_info (set_photo a) else a) (avatars s),
                              avatar_cache := (avatar_cache s)(ud_id data := None)\<rparr>;
                       affected_sessions =
                         query_all e ''update_entity''
                           (filter (\<lambda>x. status x = RUNNING
                                         \<and> (avatar_id x = Some (ud_id data)
                                              \<or> destination_avatar_id x = Some (ud_id data)))
                              (sessions s1))
                   in case fold (restart_counting e) (map session_id affected_sessions) (0, s1) of
                        (restarted_count, s2) \<Rightarrow>
                          (Success (''Entity updated. Restarted '' @ str_nat restarted_count
                                      @ '' active session(s).''), s2))))
      else (Error (''Entity type '' @ quoted (ud_entity_type data)
                     @ '' not supported for updates.''), s))"

definition session_type_value :: "SessionType \<Rightarrow> string" where
  "session_type_value ty =
     (case ty of
        IC_SESSION \<Rightarrow> ''ic_session''
      | REQUEST_SESSION \<Rightarrow> ''request_session''
      | AVATAR_LINK \<Rightarrow> ''avatar_link''
      | GROUP_IC_SESSION \<Rightarrow> ''group_ic_session'')"

definition view_row_of :: "Env \<Rightarrow> HealerDaemon \<Rightarrow> Session \<Rightarrow> view_row" where
  "view_row_of e s x =
     \<lparr>vr_session_id = session_id x,
      vr_type = session_type_value (session_type x),
      vr_target =
        (case (case parent_session_id x of None \<Rightarrow> None | Some pk \<Rightarrow> get_session s pk) of
           None \<Rightarrow> description x
         | Some p \<Rightarrow>
             if is_group_session p
             then Some (''Part of Group Session #'' @ str_nat (session_id p) @ '': ''
                          @ str_name (description p))
             else description x),
      vr_duration_minutes =
        (case end_time x of
           None \<Rightarrow> None
         | Some en \<Rightarrow> Some (float_minutes e (en - start_time x)))\<rparr>"

text \<open>
  \<open>handle_view_running_on\<close> changes nothing and neither commits nor rolls back; an
  exception, such as the ValueError of \<open>int\<close>, is answered with its message.
\<close>

definition handle_view_running_on :: "Env \<Rightarrow> string \<Rightarrow> HealerDaemon \<Rightarrow> reply \<times> HealerDaemon" where
  "handle_view_running_on e avatar_identifier s =
     (case (if str_isdigit e avatar_identifier
            then (case int_of_str e avatar_identifier of
                    Inl err \<Rightarrow> Inl err
                  | Inr n \<Rightarrow> Inr (get_avatar s (Some n)))
            else Inr (find (\<lambda>a. avatar_name a = avatar_identifier) (avatars s))) of
        Inl err \<Rightarrow> (Error err, s)
      | Inr None \<Rightarrow> (Error (''Avatar '' @ quoted avatar_identifier @ '' not found.''), s)
      | Inr (Some avatar) \<Rightarrow>
          (let avatar_group_ids =
                 map group_key (filter (\<lambda>g. avatar_key avatar \<in> set (members g)) (avatar_groups s));
               running =
                 query_all e ''view_running_on''
                   (filter (\<lambda>x. status x = RUNNING \<and> \<not> is_group_session x
                              \<and> (avatar_id x = Some (avatar_key avatar)
                                   \<or> destination_avatar_id x = Some (avatar_key avatar)
                                   \<or> (case parent_session_id x of
                                         None \<Rightarrow> False
                                       | Some pk \<Rightarrow>
                                           (case get_session s pk of
                                              None \<Rightarrow> False
                                            | Some p \<Rightarrow>
                                                (case avatar_group_id p of
                                                   None \<Rightarrow> False
                                                 | Some gk \<Rightarrow> gk \<in> set avatar_group_ids)))))
                   (sessions s))
           in (Running_on (avatar_name avatar) (avatar_key avatar)
                 (map (view_row_of e s) running), s)))"

section \<open>The command loop\<close>

text \<open>
  On startup \<open>run\<close> sets every session found RUNNING to FAILED; the daemon starts with
  empty caches, no workers and a fresh \<open>db_session\<close>.
\<close>

definition startup_recovery :: "HealerDaemon \<Rightarrow> HealerDaemon" where
  "startup_recovery s =
     s\<lparr>sessions := map (\<lambda>x. if status x = RUNNING then x\<lparr>status := FAILED\<rparr> else x) (sessions s),
       ic_cache := Map.empty, avatar_cache := Map.empty, request_cache := Map.empty,
       active_workers := Map.empty, pending_failed := []\<rparr>"

datatype command =
    Ping
  | Start_ic start_ic_data
  | Start_request start_request_data
  | Start_link start_link_data
  | Start_group start_group_data
  | Stop_session "nat option"
  | View_running_on string
  | Add_member_to_group member_data
  | Remove_member_from_group member_data
  | Remove_entity entity_data
  | Remove_group group_data
  | Redo_failed
  | Update_entity update_data
  | Fail_sessions_on_target fail_data
  | Fail_all_running
  | Unknown string

fun dispatch :: "Env \<Rightarrow> command \<Rightarrow> HealerDaemon \<Rightarrow> reply \<times> HealerDaemon" where
  "dispatch e Ping s = (Success ''pong'', s)"
| "dispatch e (Start_ic data) s = handle_start_ic e data s"
| "dispatch e (Start_request data) s = handle_start_request e data s"
| "dispatch e (Start_link data) s = handle_start_link e data s"
| "dispatch e (Start_group data) s = handle_start_group e data s"
| "dispatch e (Stop_session k) s = handle_stop_session k s"
| "dispatch e (View_running_on a) s = handle_view_running_on e a s"
| "dispatch e (Add_member_to_group data) s = handle_add_member_to_group e data s"
| "dispatch e (Remove_member_from_group data) s = handle_remove_member_from_group data s"
| "dispatch e (Remove_entity data) s = handle_remove_entity data s"
| "dispatch e (Remove_group data) s = handle_remove_group data s"
| "dispatch e Redo_failed s = handle_redo_failed_sessions e s"
| "dispatch e (Update_entity data) s = handle_update_entity e data s"
| "dispatch e (Fail_sessions_on_target data) s = handle_fail_sessions_on_target data s"
| "dispatch e Fail_all_running s = handle_fail_all_running_sessions s"
| "dispatch e (Unknown action) s = (Error (''Unknown command: '' @ action), s)"

section \<open>Notions used in the statements\<close>

text \<open>The command loop of \<open>run\<close>: commands are handled one after the other.\<close>

definition run_commands :: "Env \<Rightarrow> command list \<Rightarrow> HealerDaemon \<Rightarrow> HealerDaemon" where
  "run_commands e cs s = fold (\<lambda>c t. snd (dispatch e c t)) cs s"

text \<open>The state a loop ends in, whether it raised or not.\<close>

definition final :: "(string \<times> 's) + 's \<Rightarrow> 's" where
  "final r = (case r of Inl (err, s) \<Rightarrow> s | Inr s \<Rightarrow> s)"

text \<open>Two states that differ in the payload caches at most.\<close>

definition same_store :: "HealerDaemon \<Rightarrow> HealerDaemon \<Rightarrow> bool" where
  "same_store s s' \<longleftrightarrow>
     sessions s' = sessions s \<and> sessions_seq s' = sessions_seq s
     \<and> avatars s' = avatars s \<and> information_copies s' = information_copies s
     \<and> requests s' = requests s \<and> avatar_groups s' = avatar_groups s
     \<and> ic_groups s' = ic_groups s \<and> request_groups s' = request_groups s
     \<and> active_workers s' = active_workers s \<and> process_starts s' = process_starts s
     \<and> clock_reads s' = clock_reads s \<and> pending_failed s' = pending_failed s"

text \<open>
  Two views of a session row that no spawn, stop or fail changes: the columns a leaf
  gets from its creator, and the columns that place it in the session tree.
\<close>

definition leaf_shape ::
  "Session \<Rightarrow> bool \<times> SessionType \<times> nat option \<times> nat option \<times> nat option \<times> int \<times> int option" where
  "leaf_shape x = (is_group_session x, session_type x, parent_session_id x, avatar_id x, ic_id x,
                   start_time x, end_time x)"

definition kind :: "Session \<Rightarrow> nat option \<times> SessionType \<times> bool" where
  "kind x = (parent_session_id x, session_type x, is_group_session x)"

text \<open>
  An argument pair (id, group name) is group-valued and names a group with more than one
  member: the id is not truthy, the name is, and the group found has at least two
  members.
\<close>

definition names_large_group :: "Group list \<Rightarrow> nat option \<Rightarrow> string option \<Rightarrow> bool" where
  "names_large_group gs id_arg group_arg \<longleftrightarrow>
     \<not> truthy_id id_arg \<and> truthy_name group_arg
     \<and> (case group_by_name gs group_arg of None \<Rightarrow> False | Some g \<Rightarrow> 1 < length (members g))"

text \<open>The rows a handler added to the sessions table hold a parent.\<close>

definition parent_created :: "HealerDaemon \<Rightarrow> HealerDaemon \<Rightarrow> bool" where
  "parent_created s s' \<longleftrightarrow>
     list_ex is_group_session (drop (length (sessions s)) (sessions s'))"

text \<open>
  The end time of a duration can be represented when it is read at the k-th reading of
  the clock: no duration or duration 0 (no end time), or \<open>timedelta\<close> and the sum both
  in range.
\<close>

definition end_time_representable :: "Env \<Rightarrow> int option \<Rightarrow> nat \<Rightarrow> bool" where
  "end_time_representable e duration k \<longleftrightarrow>
     (case duration of
        None \<Rightarrow> True
      | Some d \<Rightarrow>
          d = 0 \<or> (- 999999999 \<le> d div 1440 \<and> d div 1440 \<le> 999999999
                   \<and> 0 \<le> utcnow_at e k + d * 60000000
                   \<and> utcnow_at e k + d * 60000000 \<le> datetime_max))"

text \<open>
  The foreign keys of the membership tables: every member id of a group has its row.
\<close>

definition foreign_keys_ok :: "HealerDaemon \<Rightarrow> bool" where
  "foreign_keys_ok s \<longleftrightarrow>
     (\<forall>g\<in>set (avatar_groups s). \<forall>a\<in>set (members g). get_avatar s (Some a) \<noteq> None)
   \<and> (\<forall>g\<in>set (ic_groups s). \<forall>i\<in>set (members g). get_ic s (Some i) \<noteq> None)
   \<and> (\<forall>g\<in>set (request_groups s). \<forall>r\<in>set (members g). get_request s (Some r) \<noteq> None)"

text \<open>
  Terminal statuses, the status stored for a session key, and the two properties of the
  primary key of the sessions table: keys are distinct, and every key in use is below
  the next key of the sequence.
\<close>

definition terminal :: "SessionStatus \<Rightarrow> bool" where
  "terminal st \<longleftrightarrow> st = COMPLETED \<or> st = STOPPED \<or> st = FAILED \<or> st = RESTARTED"

definition status_of :: "HealerDaemon \<Rightarrow> nat \<Rightarrow> SessionStatus option" where
  "status_of s k = map_option status (get_session s k)"

definition ids_below :: "HealerDaemon \<Rightarrow> bool" where
  "ids_below s \<longleftrightarrow> (\<forall>x\<in>set (sessions s). session_id x < sessions_seq s)"

definition keys_ok :: "HealerDaemon \<Rightarrow> bool" where
  "keys_ok s \<longleftrightarrow> distinct (map session_id (sessions s)) \<and> ids_below s"

text \<open>
  The stored status of session \<open>k\<close> is one of the statuses \<open>A\<close>, all terminal; if FAILED
  is pending for \<open>k\<close> then FAILED is one of them; and the keys with FAILED pending are
  among \<open>P\<close>.
\<close>

definition kept :: "nat \<Rightarrow> SessionStatus set \<Rightarrow> nat set \<Rightarrow> HealerDaemon \<Rightarrow> bool" where
  "kept k A P t \<longleftrightarrow>
     ids_below t \<and> (\<forall>a\<in>A. terminal a) \<and> (\<exists>a\<in>A. status_of t k = Some a)
     \<and> (k \<in> set (pending_failed t) \<longrightarrow> FAILED \<in> A) \<and> set (pending_failed t) \<subseteq> P"

text \<open>
  The seven reference columns of a session row, and the property of the rows the
  handlers write: a row that is not a group session carries no request group.
\<close>

definition references ::
  "Session \<Rightarrow> nat option \<times> nat option \<times> nat option \<times> nat option \<times> nat option \<times> nat option \<times> nat option" where
  "references x = (avatar_id x, destination_avatar_id x, ic_id x, request_id x,
                   avatar_group_id x, ic_group_id x, request_group_id x)"

definition leaf_row_ok :: "Session \<Rightarrow> bool" where
  "leaf_row_ok x \<longleftrightarrow> is_group_session x \<or> request_group_id x = None"

definition leaves_without_request_group :: "HealerDaemon \<Rightarrow> bool" where
  "leaves_without_request_group s \<longleftrightarrow> list_all leaf_row_ok (sessions s)"

text \<open>No worker is registered under a key that the sessions table has not handed out.\<close>

definition workers_below :: "HealerDaemon \<Rightarrow> bool" where
  "workers_below s \<longleftrightarrow> (\<forall>k. active_workers s k \<noteq> None \<longrightarrow> k < sessions_seq s)"

section \<open>Scenarios\<close>

text \<open>Decimal digits, for an environment whose requests are plain ASCII.\<close>

definition ascii_isdigit :: "string \<Rightarrow> bool" where
  "ascii_isdigit t = (t \<noteq> [] \<and> list_all (\<lambda>c. c \<in> set ''0123456789'') t)"

definition int_of_digits :: "string \<Rightarrow> nat" where
  "int_of_digits t = foldl (\<lambda>n c. 10 * n + (of_char c - 48)) 0 t"

text \<open>
  A clock that advances by one second between two readings, an operating system that
  starts every process, with pids from 4000 on, queries that return their rows in the
  order of the tables, and whole minutes truncated towards zero.
\<close>

definition demo_env :: Env where
  "demo_env = \<lparr>utcnow_at = (\<lambda>k. 1000000 * int k), process_pid_at = (\<lambda>k. Some (4000 + k)),
               row_rank = (\<lambda>q x. 0), member_rank = (\<lambda>q g m. 0),
               str_isdigit = ascii_isdigit, int_of_str = (\<lambda>t. Inr (int_of_digits t)),
               float_minutes = (\<lambda>d. sgn d * (\<bar>d\<bar> div 60000000))\<rparr>"

text \<open>
  A catalog of three avatars, three ICs and one request, with the avatar groups
  G = {1, 2} and Solo = {3}, the IC group H = {7, 8} and the request group Q = {5}; no
  session yet.
\<close>

definition demo_store :: HealerDaemon where
  "demo_store =
     \<lparr>avatars = [\<lparr>avatar_key = 1, avatar_name = ''P1'', photo_data = ''a'', info_data = ''x''\<rparr>,
                 \<lparr>avatar_key = 2, avatar_name = ''P2'', photo_data = ''b'', info_data = ''y''\<rparr>,
                 \<lparr>avatar_key = 3, avatar_name = ''P3'', photo_data = ''c'', info_data = ''z''\<rparr>],
      information_copies = [\<lparr>ic_key = 7, ic_name = ''IC7'', wav_data = ''u''\<rparr>,
                            \<lparr>ic_key = 8, ic_name = ''IC8'', wav_data = ''v''\<rparr>,
                            \<lparr>ic_key = 9, ic_name = ''IC9'', wav_data = ''w''\<rparr>],
      requests = [\<lparr>request_key = 5, request_name = ''R5'', request_data = ''r''\<rparr>],
      avatar_groups = [\<lparr>group_key = 1, group_name = ''G'', members = [1, 2]\<rparr>,
                       \<lparr>group_key = 2, group_name = ''Solo'', members = [3]\<rparr>],
      ic_groups = [\<lparr>group_key = 1, group_name = ''H'', members = [7, 8]\<rparr>],
      request_groups = [\<lparr>group_key = 1, group_name = ''Q'', members = [5]\<rparr>],
      sessions = [], sessions_seq = 1,
      ic_cache = Map.empty, avatar_cache = Map.empty, request_cache = Map.empty,
      active_workers = Map.empty, clock_reads = 0, process_starts = 0,
      pending_failed = []\<rparr>"

text \<open>The catalog after \<open>start_group\<close> of G on H: group session #1 with four running leaves.\<close>

definition group_by_group_store :: HealerDaemon where
  "group_by_group_store =
     snd (handle_start_group demo_env
            \<lparr>sg_avatar_group = Some ''G'', sg_ic_group = Some ''H'', sg_duration = None\<rparr> demo_store)"

text \<open>The catalog with one leaf whose worker has written COMPLETED.\<close>

definition completed_store :: HealerDaemon where
  "completed_store =
     demo_store\<lparr>sessions :=
                   [(Session_init IC_SESSION 0 (Some 60000000) COMPLETED)
                      \<lparr>session_id := 1, avatar_id := Some 1, ic_id := Some 7,
                       description := Some ''done''\<rparr>],
                 sessions_seq := 2\<rparr>"

text \<open>
  The catalog after \<open>start_ic\<close> of IC 7 on G, \<open>stop_session\<close> of that parent (#1), and
  \<open>start_ic\<close> of IC 8 on G: a stopped group operation and a running one.
\<close>

definition stopped_parent_store :: HealerDaemon where
  "stopped_parent_store =
     run_commands demo_env
       [Start_ic \<lparr>si_avatar_id = None, si_avatar_group = Some ''G'', si_ic_id = 7, si_duration = None\<rparr>,
        Stop_session (Some 1),
        Start_ic \<lparr>si_avatar_id = None, si_avatar_group = Some ''G'', si_ic_id = 8, si_duration = None\<rparr>]
       demo_store"

text \<open>
  The catalog after \<open>start_ic\<close> of IC 7 on G, \<open>stop_session\<close> of that parent (#1) and
  \<open>fail_sessions_on_target\<close> for G: no session is running, the handler returns early,
  and FAILED is pending for the STOPPED parent #1.
\<close>

definition pending_store :: HealerDaemon where
  "pending_store =
     run_commands demo_env
       [Start_ic \<lparr>si_avatar_id = None, si_avatar_group = Some ''G'', si_ic_id = 7, si_duration = None\<rparr>,
        Stop_session (Some 1),
        Fail_sessions_on_target \<lparr>fd_avatar_id = None, fd_avatar_group = Some ''G''\<rparr>]
       demo_store"

text \<open>
  The catalog after \<open>start_group\<close> of G on H and \<open>fail_sessions_on_target\<close> for G: the
  group session #1 and its four leaves are FAILED.
\<close>

definition failed_group_store :: HealerDaemon where
  "failed_group_store =
     run_commands demo_env
       [Start_group \<lparr>sg_avatar_group = Some ''G'', sg_ic_group = Some ''H'', sg_duration = None\<rparr>,
        Fail_sessions_on_target \<lparr>fd_avatar_id = None, fd_avatar_group = Some ''G''\<rparr>]
       demo_store"

section \<open>Loops, frames and the payload loads\<close>

lemma final_simps [simp]: "final (Inl (err, s)) = s" "final (Inr s) = s"
  by (simp_all add: final_def)

lemma for_each_inv:
  assumes "I s" and "\<And>x s. x \<in> set xs \<Longrightarrow> I s \<Longrightarrow> I (final (body x s))"
  shows "I (final (for_each body xs s))"
  using assms
proof (induction xs arbitrary: s)
  case Nil
  then show ?case by simp
next
  case (Cons x xs)
  show ?case
  proof (cases "body x s")
    case (Inl err)
    then have "final (for_each body (x # xs) s) = final (body x s)" by simp
    with Cons.prems show ?thesis by simp
  next
    case (Inr s')
    then have "I s'" using Cons.prems(2)[of x s] Cons.prems(1) by simp
    then have "I (final (for_each body xs s'))"
      using Cons.IH Cons.prems(2) by simp
    with Inr show ?thesis by simp
  qed
qed

lemma fold_inv:
  assumes "I s" and "\<And>x s. x \<in> set xs \<Longrightarrow> I s \<Longrightarrow> I (f x s)"
  shows "I (fold f xs s)"
  using assms by (induction xs arbitrary: s) auto

lemma sessions_update_session [simp]:
  "sessions (update_session k f s) = map (\<lambda>x. if session_id x = k then f x else x) (sessions s)"
  by (simp add: update_session_def)

lemma map_update_session_blind:
  assumes "\<And>y. f (g y) = f y"
  shows "map f (sessions (update_session k g s)) = map f (sessions s)"
  using assms by (simp add: update_session_def)

lemma commit_map_blind:
  assumes "\<And>y a. f (y\<lparr>status := a\<rparr>) = f y"
  shows "map f (sessions (commit s)) = map f (sessions s)"
  using assms by (simp add: commit_def)

lemma commit_tables [simp]:
  "avatars (commit s) = avatars s"
  "information_copies (commit s) = information_copies s"
  "requests (commit s) = requests s"
  "avatar_groups (commit s) = avatar_groups s"
  "ic_groups (commit s) = ic_groups s"
  "request_groups (commit s) = request_groups s"
  "sessions_seq (commit s) = sessions_seq s"
  "clock_reads (commit s) = clock_reads s"
  "process_starts (commit s) = process_starts s"
  "active_workers (commit s) = active_workers s"
  "ic_cache (commit s) = ic_cache s"
  "avatar_cache (commit s) = avatar_cache s"
  "request_cache (commit s) = request_cache s"
  "pending_failed (commit s) = []"
  "length (sessions (commit s)) = length (sessions s)"
  by (simp_all add: commit_def)

lemma rollback_tables [simp]:
  "avatars (rollback s) = avatars s"
  "information_copies (rollback s) = information_copies s"
  "requests (rollback s) = requests s"
  "avatar_groups (rollback s) = avatar_groups s"
  "ic_groups (rollback s) = ic_groups s"
  "request_groups (rollback s) = request_groups s"
  "sessions (rollback s) = sessions s"
  "sessions_seq (rollback s) = sessions_seq s"
  "clock_reads (rollback s) = clock_reads s"
  "process_starts (rollback s) = process_starts s"
  "active_workers (rollback s) = active_workers s"
  "pending_failed (rollback s) = []"
  by (simp_all add: rollback_def)

lemma update_session_tables [simp]:
  "avatars (update_session k f s) = avatars s"
  "information_copies (update_session k f s) = information_copies s"
  "requests (update_session k f s) = requests s"
  "avatar_groups (update_session k f s) = avatar_groups s"
  "ic_groups (update_session k f s) = ic_groups s"
  "request_groups (update_session k f s) = request_groups s"
  "sessions_seq (update_session k f s) = sessions_seq s"
  "clock_reads (update_session k f s) = clock_reads s"
  "process_starts (update_session k f s) = process_starts s"
  "active_workers (update_session k f s) = active_workers s"
  "pending_failed (update_session k f s) = pending_failed s"
  by (simp_all add: update_session_def)

lemma commit_session_tables [simp]:
  "avatars (commit_session k f s) = avatars s"
  "information_copies (commit_session k f s) = information_copies s"
  "requests (commit_session k f s) = requests s"
  "avatar_groups (commit_session k f s) = avatar_groups s"
  "ic_groups (commit_session k f s) = ic_groups s"
  "request_groups (commit_session k f s) = request_groups s"
  "sessions_seq (commit_session k f s) = sessions_seq s"
  "clock_reads (commit_session k f s) = clock_reads s"
  "process_starts (commit_session k f s) = process_starts s"
  "active_workers (commit_session k f s) = active_workers s"
  "pending_failed (commit_session k f s) = []"
  by (simp_all add: commit_session_def)

lemma commit_session_map_blind:
  assumes "\<And>y a. f (y\<lparr>status := a\<rparr>) = f y" and "\<And>y. f (g y) = f y"
  shows "map f (sessions (commit_session k g s)) = map f (sessions s)"
  unfolding commit_session_def
  using map_update_session_blind[of f g k "commit s", OF assms(2)] commit_map_blind[of f s, OF assms(1)]
  by simp

lemma commit_nothing_pending: "pending_failed s = [] \<Longrightarrow> commit s = s"
  by (simp add: commit_def attr_status_def)

lemma query_all_set [simp]: "set (query_all e q xs) = set xs"
  and query_all_length [simp]: "length (query_all e q xs) = length xs"
  and query_all_empty [simp]: "query_all e q xs = [] \<longleftrightarrow> xs = []"
  by (simp_all add: query_all_def flip: length_0_conv)

lemma loaded_members_set [simp]: "set (loaded_members e q g) = set (members g)"
  and loaded_members_length [simp]: "length (loaded_members e q g) = length (members g)"
  and loaded_members_empty [simp]: "loaded_members e q g = [] \<longleftrightarrow> members g = []"
  by (simp_all add: loaded_members_def flip: length_0_conv)

lemma load_avatar_sessions:
  "load_avatar_to_cache k s = Some (b, s') \<Longrightarrow> sessions s' = sessions s \<and> sessions_seq s' = sessions_seq s
     \<and> avatars s' = avatars s \<and> information_copies s' = information_copies s \<and> requests s' = requests s
     \<and> avatar_groups s' = avatar_groups s \<and> ic_groups s' = ic_groups s \<and> request_groups s' = request_groups s
     \<and> active_workers s' = active_workers s \<and> process_starts s' = process_starts s \<and> clock_reads s' = clock_reads s
     \<and> pending_failed s' = pending_failed s"
  by (auto simp: load_avatar_to_cache_def Let_def split: option.splits)

lemma load_ic_sessions:
  "load_ic_to_cache k s = Some (b, s') \<Longrightarrow> sessions s' = sessions s \<and> sessions_seq s' = sessions_seq s
     \<and> avatars s' = avatars s \<and> information_copies s' = information_copies s \<and> requests s' = requests s
     \<and> avatar_groups s' = avatar_groups s \<and> ic_groups s' = ic_groups s \<and> request_groups s' = request_groups s
     \<and> active_workers s' = active_workers s \<and> process_starts s' = process_starts s \<and> clock_reads s' = clock_reads s
     \<and> pending_failed s' = pending_failed s"
  by (auto simp: load_ic_to_cache_def Let_def split: option.splits)

lemma load_request_sessions:
  "load_request_to_cache k s = Some (b, s') \<Longrightarrow> sessions s' = sessions s \<and> sessions_seq s' = sessions_seq s
     \<and> avatars s' = avatars s \<and> information_copies s' = information_copies s \<and> requests s' = requests s
     \<and> avatar_groups s' = avatar_groups s \<and> ic_groups s' = ic_groups s \<and> request_groups s' = request_groups s
     \<and> active_workers s' = active_workers s \<and> process_starts s' = process_starts s \<and> clock_reads s' = clock_reads s
     \<and> pending_failed s' = pending_failed s"
  by (auto simp: load_request_to_cache_def Let_def split: option.splits)

lemma load_two_store:
  assumes "\<And>b t t'. item1 t = Some (b, t') \<Longrightarrow> same_store t t'"
    and "\<And>b t t'. item2 t = Some (b, t') \<Longrightarrow> same_store t t'"
    and "load_two item1 item2 s = Inl s' \<or> load_two item1 item2 s = Inr s'"
  shows "same_store s s'"
proof (cases "item1 s")
  case None
  then show ?thesis using assms(3) by (auto simp: load_two_def same_store_def)
next
  case (Some r)
  obtain b1 s1 where r: "r = (b1, s1)" by (cases r)
  have s1: "same_store s s1" using assms(1) Some r by simp
  show ?thesis
  proof (cases "item2 s1")
    case None
    then show ?thesis using assms(3) Some r s1 by (auto simp: load_two_def)
  next
    case q: (Some q)
    obtain b2 s2 where "q = (b2, s2)" by (cases q)
    then have "same_store s1 s2" "s' = s2"
      using assms(2)[of s1 b2 s2] assms(3) Some r q by (auto simp: load_two_def)
    then show ?thesis using s1 by (auto simp: same_store_def)
  qed
qed

lemma load_avatar_store: "load_avatar_to_cache k t = Some (b, t') \<Longrightarrow> same_store t t'"
  using load_avatar_sessions[of k t b t'] by (simp add: same_store_def)

lemma load_ic_store: "load_ic_to_cache k t = Some (b, t') \<Longrightarrow> same_store t t'"
  using load_ic_sessions[of k t b t'] by (simp add: same_store_def)

lemma load_request_store: "load_request_to_cache k t = Some (b, t') \<Longrightarrow> same_store t t'"
  using load_request_sessions[of k t b t'] by (simp add: same_store_def)

lemma load_items_store:
  assumes "load_items x s = Inl s' \<or> load_items x s = Inr s'"
  shows "same_store s s'"
proof -
  consider (ic) "session_type x = IC_SESSION \<or> session_type x = GROUP_IC_SESSION"
    | (request) "\<not> (session_type x = IC_SESSION \<or> session_type x = GROUP_IC_SESSION)"
        "session_type x = REQUEST_SESSION"
    | (link) "\<not> (session_type x = IC_SESSION \<or> session_type x = GROUP_IC_SESSION)"
        "session_type x \<noteq> REQUEST_SESSION"
    by blast
  then show ?thesis
  proof cases
    case ic
    then have "load_two (load_avatar_to_cache (avatar_id x)) (load_ic_to_cache (ic_id x)) s = Inl s'
             \<or> load_two (load_avatar_to_cache (avatar_id x)) (load_ic_to_cache (ic_id x)) s = Inr s'"
      using assms by (simp add: load_items_def)
    then show ?thesis
      using load_two_store[of "load_avatar_to_cache (avatar_id x)" "load_ic_to_cache (ic_id x)" s s']
        load_avatar_store load_ic_store by blast
  next
    case request
    then have "load_two (load_avatar_to_cache (avatar_id x)) (load_request_to_cache (request_id x)) s = Inl s'
             \<or> load_two (load_avatar_to_cache (avatar_id x)) (load_request_to_cache (request_id x)) s = Inr s'"
      using assms by (simp add: load_items_def)
    then show ?thesis
      using load_two_store[of "load_avatar_to_cache (avatar_id x)"
          "load_request_to_cache (request_id x)" s s']
        load_avatar_store load_request_store by blast
  next
    case link
    then have "load_two (load_avatar_to_cache (avatar_id x))
                 (load_avatar_to_cache (destination_avatar_id x)) s = Inl s'
             \<or> load_two (load_avatar_to_cache (avatar_id x))
                 (load_avatar_to_cache (destination_avatar_id x)) s = Inr s'"
      using assms by (simp add: load_items_def)
    then show ?thesis
      using load_two_store[of "load_avatar_to_cache (avatar_id x)"
          "load_avatar_to_cache (destination_avatar_id x)" s s']
        load_avatar_store by blast
  qed
qed

lemma load_items_same:
  "load_items x s = Inl s' \<Longrightarrow> same_store s s'"
  "load_items x s = Inr s' \<Longrightarrow> same_store s s'"
  using load_items_store[of x s s'] by simp_all

lemma spawn_map_blind:
  assumes "\<And>y a. f (y\<lparr>status := a\<rparr>) = f y" and "\<And>y b. f (y\<lparr>worker_pid := b\<rparr>) = f y"
  shows "map f (sessions (spawn_worker_for_session e k s)) = map f (sessions s)"
proof -
  have cs: "\<And>g t. (\<And>y. f (g y) = f y) \<Longrightarrow> map f (sessions (commit_session k g t)) = map f (sessions t)"
    using commit_session_map_blind[of f, OF assms(1)] by blast
  show ?thesis
  proof (cases "get_session s k")
    case None
    then show ?thesis by (simp add: spawn_worker_for_session_def)
  next
    case (Some x)
    show ?thesis
    proof (cases "k = 0 \<or> active_workers s k \<noteq> None")
      case True
      then show ?thesis using Some by (auto simp: spawn_worker_for_session_def)
    next
      case False
      show ?thesis
      proof (cases "load_items x s")
        case (Inl s1)
        have "sessions s1 = sessions s" using load_items_same(1)[OF Inl] by (simp add: same_store_def)
        then show ?thesis using Some False Inl assms
          by (simp add: spawn_worker_for_session_def cs)
      next
        case (Inr s1)
        have "sessions s1 = sessions s" using load_items_same(2)[OF Inr] by (simp add: same_store_def)
        then show ?thesis using Some False Inr assms
          by (cases "process_pid_at e (process_starts s1)")
             (simp_all add: spawn_worker_for_session_def cs)
      qed
    qed
  qed
qed

lemma spawn_tables:
  "avatars (spawn_worker_for_session e k s) = avatars s"
  "information_copies (spawn_worker_for_session e k s) = information_copies s"
  "requests (spawn_worker_for_session e k s) = requests s"
  "avatar_groups (spawn_worker_for_session e k s) = avatar_groups s"
  "ic_groups (spawn_worker_for_session e k s) = ic_groups s"
  "request_groups (spawn_worker_for_session e k s) = request_groups s"
  "sessions_seq (spawn_worker_for_session e k s) = sessions_seq s"
  "clock_reads (spawn_worker_for_session e k s) = clock_reads s"
  unfolding spawn_worker_for_session_def
  by (auto split: option.splits sum.splits dest!: load_items_same simp: same_store_def)

section \<open>start\_group creates one parent and the product of the groups\<close>

lemma for_each_appends:
  assumes "J s"
    and "\<And>x s. x \<in> set xs \<Longrightarrow> J s \<Longrightarrow> \<exists>s'. body x s = Inr s' \<and> J s' \<and> h s' = h s @ g x"
  shows "\<exists>s'. for_each body xs s = Inr s' \<and> J s' \<and> h s' = h s @ concat (map g xs)"
  using assms
proof (induction xs arbitrary: s)
  case Nil
  then show ?case by simp
next
  case (Cons x xs)
  from Cons.prems obtain s1 where s1: "body x s = Inr s1" "J s1" "h s1 = h s @ g x"
    by (meson list.set_intros(1))
  from Cons.IH[OF s1(2)] Cons.prems(2)
  obtain s2 where "for_each body xs s1 = Inr s2" "J s2" "h s2 = h s1 @ concat (map g xs)"
    by (meson list.set_intros(2))
  with s1 show ?case by simp
qed

lemma db_add_map:
  assumes "\<And>y a. f (y\<lparr>status := a\<rparr>) = f y" and "db_add x s = (p, s1)"
  shows "map f (sessions s1) = map f (sessions s) @ [f (x\<lparr>session_id := sessions_seq s\<rparr>)]"
    and "p = x\<lparr>session_id := sessions_seq s\<rparr>"
  using assms(2) commit_map_blind[of f s, OF assms(1)]
  by (auto simp: db_add_def Let_def)

lemma db_add_tables:
  assumes "db_add x s = (p, s1)"
  shows "avatars s1 = avatars s" "information_copies s1 = information_copies s"
    "requests s1 = requests s" "avatar_groups s1 = avatar_groups s"
    "ic_groups s1 = ic_groups s" "request_groups s1 = request_groups s"
    "sessions_seq s1 = Suc (sessions_seq s)" "clock_reads s1 = clock_reads s"
    "active_workers s1 = active_workers s" "pending_failed s1 = []"
  using assms by (auto simp: db_add_def Let_def)

lemma add_and_spawn_map:
  assumes "\<And>y a. f (y\<lparr>status := a\<rparr>) = f y" and "\<And>y b. f (y\<lparr>worker_pid := b\<rparr>) = f y"
  shows "map f (sessions (add_and_spawn e x s)) = map f (sessions s) @ [f (x\<lparr>session_id := sessions_seq s\<rparr>)]"
proof -
  obtain p s1 where add: "db_add x s = (p, s1)" by (cases "db_add x s")
  show ?thesis
    using db_add_map(1)[of f, OF assms(1) add] spawn_map_blind[of f e "session_id p" s1, OF assms]
    by (simp add: add_and_spawn_def add)
qed

lemma add_and_spawn_tables:
  "avatars (add_and_spawn e x s) = avatars s"
  "information_copies (add_and_spawn e x s) = information_copies s"
  "requests (add_and_spawn e x s) = requests s"
  "avatar_groups (add_and_spawn e x s) = avatar_groups s"
  "ic_groups (add_and_spawn e x s) = ic_groups s"
  "request_groups (add_and_spawn e x s) = request_groups s"
  "sessions_seq (add_and_spawn e x s) = Suc (sessions_seq s)"
  "clock_reads (add_and_spawn e x s) = clock_reads s"
  unfolding add_and_spawn_def db_add_def
  by (simp_all add: Let_def spawn_tables)

lemma leaf_shape_blind [simp]:
  "leaf_shape (y\<lparr>status := a\<rparr>) = leaf_shape y"
  "leaf_shape (y\<lparr>worker_pid := b\<rparr>) = leaf_shape y"
  "leaf_shape (y\<lparr>session_id := k\<rparr>) = leaf_shape y"
  "leaf_shape (y\<lparr>description := d\<rparr>) = leaf_shape y"
  by (simp_all add: leaf_shape_def)

lemma get_avatar_cong: "avatars (s'::HealerDaemon) = avatars (s::HealerDaemon) \<Longrightarrow> get_avatar s' k = get_avatar s k"
  by (cases k) (simp_all add: get_avatar_def)

lemma get_ic_cong: "information_copies (s'::HealerDaemon) = information_copies (s::HealerDaemon) \<Longrightarrow> get_ic s' k = get_ic s k"
  by (cases k) (simp_all add: get_ic_def)

lemma get_request_cong: "requests (s'::HealerDaemon) = requests (s::HealerDaemon) \<Longrightarrow> get_request s' k = get_request s k"
  by (cases k) (simp_all add: get_request_def)

lemma start_group_child_appends:
  assumes "get_avatar s (Some a) \<noteq> None" and "get_ic s (Some i) \<noteq> None"
  shows "\<exists>s'. start_group_child e p a i s = Inr s'
           \<and> (avatars s' = avatars s \<and> information_copies s' = information_copies s)
           \<and> map leaf_shape (sessions s') = map leaf_shape (sessions s)
                @ [(False, IC_SESSION, Some (session_id p), Some a, Some i, start_time p, end_time p)]"
  using assms
  unfolding start_group_child_def
  by (auto simp: Let_def add_and_spawn_tables add_and_spawn_map[of leaf_shape] 
           simp: leaf_shape_def Session_init_def)

lemma start_group_inner_appends:
  assumes "get_avatar s (Some a) \<noteq> None" and "\<forall>i\<in>set Is. get_ic s (Some i) \<noteq> None"
  shows "\<exists>s'. for_each (\<lambda>i. start_group_child e p a i) Is s = Inr s'
           \<and> (avatars s' = avatars s \<and> information_copies s' = information_copies s)
           \<and> map leaf_shape (sessions s') = map leaf_shape (sessions s)
                @ concat (map (\<lambda>i. [(False, IC_SESSION, Some (session_id p), Some a, Some i, start_time p, end_time p)]) Is)"
proof (rule for_each_appends[where J = "\<lambda>t. avatars t = avatars s \<and> information_copies t = information_copies s"
        and h = "\<lambda>t. map leaf_shape (sessions t)"])
  show "avatars s = avatars s \<and> information_copies s = information_copies s" by simp
next
  fix i and t :: HealerDaemon assume i: "i \<in> set Is" and t: "avatars t = avatars s \<and> information_copies t = information_copies s"
  have "get_avatar t (Some a) \<noteq> None" "get_ic t (Some i) \<noteq> None"
    using assms i get_avatar_cong[of t s] get_ic_cong[of t s] t by auto
  from start_group_child_appends[OF this, of e p] t
  show "\<exists>s'. start_group_child e p a i t = Inr s'
          \<and> (avatars s' = avatars s \<and> information_copies s' = information_copies s)
          \<and> map leaf_shape (sessions s') = map leaf_shape (sessions t)
               @ [(False, IC_SESSION, Some (session_id p), Some a, Some i, start_time p, end_time p)]"
    by auto
qed

lemma start_group_loops_append:
  assumes "\<forall>a\<in>set As. get_avatar s (Some a) \<noteq> None" and "\<forall>i\<in>set Is. get_ic s (Some i) \<noteq> None"
  shows "\<exists>s'. for_each (\<lambda>a. for_each (\<lambda>i. start_group_child e p a i) Is) As s = Inr s'
           \<and> map leaf_shape (sessions s') = map leaf_shape (sessions s)
                @ map (\<lambda>(a, i). (False, IC_SESSION, Some (session_id p), Some a, Some i, start_time p, end_time p))
                    (List.product As Is)"
proof -
  have "\<exists>s'. for_each (\<lambda>a. for_each (\<lambda>i. start_group_child e p a i) Is) As s = Inr s'
           \<and> (avatars s' = avatars s \<and> information_copies s' = information_copies s)
           \<and> map leaf_shape (sessions s') = map leaf_shape (sessions s)
                @ concat (map (\<lambda>a. concat (map (\<lambda>i. [(False, IC_SESSION, Some (session_id p), Some a, Some i, start_time p, end_time p)]) Is)) As)"
  proof (rule for_each_appends[where J = "\<lambda>t. avatars t = avatars s \<and> information_copies t = information_copies s"
        and h = "\<lambda>t. map leaf_shape (sessions t)"])
    show "avatars s = avatars s \<and> information_copies s = information_copies s" by simp
  next
    fix a and t :: HealerDaemon assume a: "a \<in> set As" and t: "avatars t = avatars s \<and> information_copies t = information_copies s"
    have "get_avatar t (Some a) \<noteq> None" "\<forall>i\<in>set Is. get_ic t (Some i) \<noteq> None"
      using assms a get_avatar_cong[of t s] get_ic_cong[of t s] t by auto
    from start_group_inner_appends[OF this, of e p] t
    show "\<exists>s'. for_each (\<lambda>i. start_group_child e p a i) Is t = Inr s'
          \<and> (avatars s' = avatars s \<and> information_copies s' = information_copies s)
          \<and> map leaf_shape (sessions s') = map leaf_shape (sessions t)
               @ concat (map (\<lambda>i. [(False, IC_SESSION, Some (session_id p), Some a, Some i, start_time p, end_time p)]) Is)"
      by auto
  qed
  moreover have "concat (map (\<lambda>a. concat (map (\<lambda>i. [(False, IC_SESSION, Some (session_id p), Some a, Some i, start_time p, end_time p)]) Is)) As)
      = map (\<lambda>(a, i). (False, IC_SESSION, Some (session_id p), Some a, Some i, start_time p, end_time p)) (List.product As Is)"
    by (induction As) (simp_all add: map_concat o_def)
  ultimately show ?thesis by auto
qed

lemma for_each_grows:
  assumes step: "\<And>x t. x \<in> set xs \<Longrightarrow> \<exists>ys. h (final (body x t)) = h t @ ys \<and> list_all P ys"
  shows "\<exists>ys. h (final (for_each body xs s)) = h s @ ys \<and> list_all P ys"
proof (rule for_each_inv[where I = "\<lambda>t. \<exists>ys. h t = h s @ ys \<and> list_all P ys"])
  show "\<exists>ys. h s = h s @ ys \<and> list_all P ys" by simp
next
  fix x t assume x: "x \<in> set xs" and "\<exists>ys. h t = h s @ ys \<and> list_all P ys"
  then obtain ys where ys: "h t = h s @ ys" "list_all P ys" by blast
  from step[OF x, of t] obtain zs where zs: "h (final (body x t)) = h t @ zs" "list_all P zs" by blast
  have "h (final (body x t)) = h s @ (ys @ zs)" "list_all P (ys @ zs)"
    using ys zs by simp_all
  then show "\<exists>ys. h (final (body x t)) = h s @ ys \<and> list_all P ys" by blast
qed

lemma start_group_child_ids:
  "\<exists>ys. map session_id (sessions (final (start_group_child e p a i t))) = map session_id (sessions t) @ ys
        \<and> list_all (\<lambda>_. True) ys"
  unfolding start_group_child_def
  by (auto simp: Let_def add_and_spawn_map[of session_id] list_all_iff split: option.splits)

lemma start_group_loops_ids:
  "\<exists>ys. map session_id (sessions (final (for_each (\<lambda>a. for_each (\<lambda>i. start_group_child e p a i) Is) As s)))
          = map session_id (sessions s) @ ys \<and> list_all (\<lambda>_. True) ys"
  by (rule for_each_grows, rule for_each_grows, rule start_group_child_ids)

lemma end_time_expr_cases:
  "(end_time_representable e d (clock_reads s)
      \<and> (\<exists>en s'. end_time_expr e d s = Inr (en, s') \<and> same_store (s'\<lparr>clock_reads := clock_reads s\<rparr>) s))
   \<or> (\<not> end_time_representable e d (clock_reads s)
      \<and> (\<exists>err s'. end_time_expr e d s = Inl (err, s') \<and> same_store (s'\<lparr>clock_reads := clock_reads s\<rparr>) s))"
  unfolding end_time_expr_def end_time_representable_def utcnow_def timedelta_minutes_def
    datetime_add_def same_store_def Let_def
  by (cases d) (auto split: if_splits)

lemma timed_session_cases:
  "(end_time_representable e d (Suc (clock_reads s))
      \<and> (\<exists>x s'. timed_session e d ty st s = Inr (x, s')
            \<and> same_store (s'\<lparr>clock_reads := clock_reads s\<rparr>) s
            \<and> session_type x = ty \<and> status x = st \<and> \<not> is_group_session x
            \<and> parent_session_id x = None \<and> request_group_id x = None
            \<and> start_time x = utcnow_at e (clock_reads s)))
   \<or> (\<not> end_time_representable e d (Suc (clock_reads s))
      \<and> (\<exists>err s'. timed_session e d ty st s = Inl (err, s')
            \<and> same_store (s'\<lparr>clock_reads := clock_reads s\<rparr>) s))"
proof -
  define s1 where "s1 = s\<lparr>clock_reads := Suc (clock_reads s)\<rparr>"
  have c: "clock_reads s1 = Suc (clock_reads s)" by (simp add: s1_def)
  have ss: "\<And>t. same_store (t\<lparr>clock_reads := clock_reads s1\<rparr>) s1
                \<Longrightarrow> same_store (t\<lparr>clock_reads := clock_reads s\<rparr>) s"
    by (simp add: same_store_def s1_def)
  have ts: "timed_session e d ty st s =
          (case end_time_expr e d s1 of Inl err \<Rightarrow> Inl err
           | Inr (en, s2) \<Rightarrow> Inr (Session_init ty (utcnow_at e (clock_reads s)) en st, s2))"
    by (simp add: timed_session_def utcnow_def s1_def)
  from end_time_expr_cases[of e d s1]
  show ?thesis
  proof
    assume "end_time_representable e d (clock_reads s1)
      \<and> (\<exists>en s'. end_time_expr e d s1 = Inr (en, s') \<and> same_store (s'\<lparr>clock_reads := clock_reads s1\<rparr>) s1)"
    then show ?thesis using c ss by (auto simp: ts Session_init_def)
  next
    assume "\<not> end_time_representable e d (clock_reads s1)
      \<and> (\<exists>err s'. end_time_expr e d s1 = Inl (err, s') \<and> same_store (s'\<lparr>clock_reads := clock_reads s1\<rparr>) s1)"
    then show ?thesis using c ss by (auto simp: ts)
  qed
qed

lemma same_store_clock:
  assumes "same_store (s'\<lparr>clock_reads := c\<rparr>) s"
  shows "sessions s' = sessions s" "sessions_seq s' = sessions_seq s" "avatars s' = avatars s"
    "information_copies s' = information_copies s" "requests s' = requests s"
    "avatar_groups s' = avatar_groups s" "ic_groups s' = ic_groups s"
    "request_groups s' = request_groups s" "active_workers s' = active_workers s"
    "pending_failed s' = pending_failed s"
  using assms by (simp_all add: same_store_def)

lemma timed_session_store:
  assumes "timed_session e d ty st s = Inr (x, s')"
  shows "sessions s' = sessions s" "sessions_seq s' = sessions_seq s" "avatars s' = avatars s"
    "information_copies s' = information_copies s" "requests s' = requests s"
    "avatar_groups s' = avatar_groups s" "ic_groups s' = ic_groups s"
    "request_groups s' = request_groups s" "active_workers s' = active_workers s"
    "pending_failed s' = pending_failed s"
    "session_type x = ty" "status x = st" "\<not> is_group_session x" "parent_session_id x = None"
    "request_group_id x = None"
    "start_time x = utcnow_at e (clock_reads s)"
    "end_time_representable e d (Suc (clock_reads s))"
  using timed_session_cases[of e d s ty st] assms same_store_clock[where s'=s' and c="clock_reads s" and s=s]
  by auto

lemma timed_session_error:
  assumes "timed_session e d ty st s = Inl (err, s')"
  shows "sessions s' = sessions s" "sessions_seq s' = sessions_seq s" "avatars s' = avatars s"
    "information_copies s' = information_copies s" "requests s' = requests s"
    "avatar_groups s' = avatar_groups s" "ic_groups s' = ic_groups s"
    "request_groups s' = request_groups s" "active_workers s' = active_workers s"
    "pending_failed s' = pending_failed s"
    "\<not> end_time_representable e d (Suc (clock_reads s))"
  using timed_session_cases[of e d s ty st] assms same_store_clock[where s'=s' and c="clock_reads s" and s=s]
  by auto

text \<open>
  Claim C5, amended.  A \<open>start_group\<close> command over an avatar group A and an IC group I,
  both found by name in a store whose membership rows reference existing avatars and ICs
  (the foreign keys of the membership tables).  When either group has no member the
  reply is the error "Both avatar and IC groups must be non-empty." and the state is
  unchanged.  When both have members and the end time of the duration cannot be
  represented (it is read at the second reading of the clock), the reply is an error and
  no session is created.  Otherwise the reply is a success, the rows already in the
  sessions table stay in place, and the rows added are exactly one parent
  (\<open>is_group_session\<close>, kind \<open>GROUP_IC_SESSION\<close>, no parent of its own) followed by
  |A| * |I| leaves, one per pair (avatar, IC) of the product of the two member lists as
  the queries loaded them, each pointing to the parent.
\<close>

theorem start_group_parent_and_leaves:
  assumes A: "group_by_name (avatar_groups s) (sg_avatar_group data) = Some A"
    and I: "group_by_name (ic_groups s) (sg_ic_group data) = Some I"
    and fkA: "\<forall>a\<in>set (members A). get_avatar s (Some a) \<noteq> None"
    and fkI: "\<forall>i\<in>set (members I). get_ic s (Some i) \<noteq> None"
  shows "(members A = [] \<or> members I = [] \<longrightarrow>
            handle_start_group e data s = (Error ''Both avatar and IC groups must be non-empty.'', s))
       \<and> (members A \<noteq> [] \<and> members I \<noteq> []
            \<and> \<not> end_time_representable e (sg_duration data) (Suc (clock_reads s)) \<longrightarrow>
            (\<exists>msg. fst (handle_start_group e data s) = Error msg)
            \<and> sessions (snd (handle_start_group e data s)) = sessions s)
       \<and> (members A \<noteq> [] \<and> members I \<noteq> []
            \<and> end_time_representable e (sg_duration data) (Suc (clock_reads s)) \<longrightarrow>
            (\<exists>msg parent leaves.
               fst (handle_start_group e data s) = Success msg
             \<and> map session_id (take (length (sessions s)) (sessions (snd (handle_start_group e data s))))
                 = map session_id (sessions s)
             \<and> drop (length (sessions s)) (sessions (snd (handle_start_group e data s))) = parent # leaves
             \<and> is_group_session parent \<and> session_type parent = GROUP_IC_SESSION
             \<and> parent_session_id parent = None
             \<and> length leaves = length (members A) * length (members I)
             \<and> map (\<lambda>x. (is_group_session x, parent_session_id x, avatar_id x, ic_id x)) leaves
                 = map (\<lambda>(a, i). (False, Some (session_id parent), Some a, Some i))
                     (List.product (loaded_members e ''start_group.avatar_group'' A)
                                   (loaded_members e ''start_group.ic_group'' I))))"
proof (intro conjI impI)
  assume "members A = [] \<or> members I = []"
  then show "handle_start_group e data s = (Error ''Both avatar and IC groups must be non-empty.'', s)"
    using A I by (auto simp: handle_start_group_def)
next
  assume ne: "members A \<noteq> [] \<and> members I \<noteq> []
                \<and> \<not> end_time_representable e (sg_duration data) (Suc (clock_reads s))"
  from timed_session_cases[of e "sg_duration data" s GROUP_IC_SESSION RUNNING] ne
  obtain err s2 where ts: "timed_session e (sg_duration data) GROUP_IC_SESSION RUNNING s = Inl (err, s2)"
    by auto
  have res: "handle_start_group e data s = (Error err, rollback s2)"
    using A I ne ts by (simp add: handle_start_group_def)
  show "\<exists>msg. fst (handle_start_group e data s) = Error msg" using res by simp
  show "sessions (snd (handle_start_group e data s)) = sessions s"
    using res timed_session_error(1)[OF ts] by simp
next
  assume ne: "members A \<noteq> [] \<and> members I \<noteq> []
                \<and> end_time_representable e (sg_duration data) (Suc (clock_reads s))"
  let ?As = "loaded_members e ''start_group.avatar_group'' A"
  let ?Is = "loaded_members e ''start_group.ic_group'' I"
  from timed_session_cases[of e "sg_duration data" s GROUP_IC_SESSION RUNNING] ne
  obtain p0 s2 where ts: "timed_session e (sg_duration data) GROUP_IC_SESSION RUNNING s = Inr (p0, s2)"
    by auto
  note st = timed_session_store[OF ts]
  define desc where "desc = ''IC Group '' @ quoted (group_name I) @ '' on Avatar Group '' @ quoted (group_name A)"
  define pr where "pr = p0\<lparr>is_group_session := True, description := Some desc,
       avatar_group_id := Some (group_key A), ic_group_id := Some (group_key I)\<rparr>"
  obtain parent s3 where add: "db_add pr s2 = (parent, s3)" by (cases "db_add pr s2")
  have parent: "parent = pr\<lparr>session_id := sessions_seq s2\<rparr>" by (rule db_add_map(2)[OF _ add]) simp
  note t3 = db_add_tables[OF add]
  have fk3: "\<forall>a\<in>set ?As. get_avatar s3 (Some a) \<noteq> None" "\<forall>i\<in>set ?Is. get_ic s3 (Some i) \<noteq> None"
    using fkA fkI st(3,4) t3(1,2) get_avatar_cong[of s3 s] get_ic_cong[of s3 s] by simp_all
  from start_group_loops_append[OF fk3, of e parent]
  obtain s4 where s4: "for_each (\<lambda>a. for_each (\<lambda>i. start_group_child e parent a i) ?Is) ?As s3 = Inr s4"
    and shape: "map leaf_shape (sessions s4) = map leaf_shape (sessions s3)
                @ map (\<lambda>(a, i). (False, IC_SESSION, Some (session_id parent), Some a, Some i, start_time parent, end_time parent))
                    (List.product ?As ?Is)"
    by blast
  from start_group_loops_ids[of e parent ?Is ?As s3] s4
  obtain ys where ids: "map session_id (sessions s4) = map session_id (sessions s3) @ ys" by auto
  have res: "handle_start_group e data s =
      (Success (''Started group session '' @ str_nat (session_id parent) @ '' with ''
                  @ str_nat (length (members A) * length (members I)) @ '' workers.''), s4)"
    using A I ne ts add s4
    by (simp add: handle_start_group_def Let_def desc_def pr_def)
  have shape3: "map leaf_shape (sessions s3) = map leaf_shape (sessions s) @ [leaf_shape parent]"
    using db_add_map(1)[of leaf_shape, OF _ add] st(1) by (simp add: parent)
  have ids3: "map session_id (sessions s3) = map session_id (sessions s) @ [session_id parent]"
    using db_add_map(1)[of session_id, OF _ add] st(1) by (simp add: parent)
  define new where "new = drop (length (sessions s)) (sessions s4)"
  have "map leaf_shape new = drop (length (sessions s)) (map leaf_shape (sessions s4))"
    by (simp add: new_def drop_map)
  also have "\<dots> = leaf_shape parent # map (\<lambda>(a, i). (False, IC_SESSION, Some (session_id parent), Some a, Some i, start_time parent, end_time parent))
                    (List.product ?As ?Is)"
    by (simp add: shape shape3)
  finally have newshape: "map leaf_shape new = leaf_shape parent # map (\<lambda>(a, i). (False, IC_SESSION, Some (session_id parent), Some a, Some i, start_time parent, end_time parent))
                    (List.product ?As ?Is)" .
  then obtain parent' leaves where new: "new = parent' # leaves"
    and lp: "leaf_shape parent' = leaf_shape parent"
    and ll: "map leaf_shape leaves = map (\<lambda>(a, i). (False, IC_SESSION, Some (session_id parent), Some a, Some i, start_time parent, end_time parent))
                    (List.product ?As ?Is)"
    by (cases new) auto
  have "map session_id new = drop (length (sessions s)) (map session_id (sessions s4))"
    by (simp add: new_def drop_map)
  also have "\<dots> = session_id parent # ys" by (simp add: ids ids3)
  finally have pid: "session_id parent' = session_id parent" using new by simp
  have pfacts: "is_group_session parent' \<and> session_type parent' = GROUP_IC_SESSION \<and> parent_session_id parent' = None"
    using lp st(11,14) by (simp add: leaf_shape_def parent pr_def)
  have "length leaves = length (members A) * length (members I)"
    using arg_cong[OF ll, of length] by simp
  moreover have "map (\<lambda>x. (is_group_session x, parent_session_id x, avatar_id x, ic_id x)) leaves
                 = map (\<lambda>(a, i). (False, Some (session_id parent'), Some a, Some i))
                     (List.product ?As ?Is)"
  proof -
    have "map (\<lambda>x. (is_group_session x, parent_session_id x, avatar_id x, ic_id x)) leaves
        = map (\<lambda>(g, ty, p, a, i, st, en). (g, p, a, i)) (map leaf_shape leaves)"
      by (simp add: leaf_shape_def)
    also have "\<dots> = map (\<lambda>(a, i). (False, Some (session_id parent'), Some a, Some i))
                     (List.product ?As ?Is)"
      by (simp add: ll pid split_def)
    finally show ?thesis .
  qed
  moreover have "map session_id (take (length (sessions s)) (sessions s4)) = map session_id (sessions s)"
  proof -
    have "map session_id (take (length (sessions s)) (sessions s4))
            = take (length (sessions s)) (map session_id (sessions s4))"
      by (simp add: take_map)
    also have "\<dots> = map session_id (sessions s)" by (simp add: ids ids3)
    finally show ?thesis .
  qed
  ultimately show "\<exists>msg parent leaves.
               fst (handle_start_group e data s) = Success msg
             \<and> map session_id (take (length (sessions s)) (sessions (snd (handle_start_group e data s))))
                 = map session_id (sessions s)
             \<and> drop (length (sessions s)) (sessions (snd (handle_start_group e data s))) = parent # leaves
             \<and> is_group_session parent \<and> session_type parent = GROUP_IC_SESSION
             \<and> parent_session_id parent = None
             \<and> length leaves = length (members A) * length (members I)
             \<and> map (\<lambda>x. (is_group_session x, parent_session_id x, avatar_id x, ic_id x)) leaves
                 = map (\<lambda>(a, i). (False, Some (session_id parent), Some a, Some i))
                     (List.product ?As ?Is)"
    using res new pfacts by (auto simp: new_def)
qed

text \<open>
  Claim C5 (amended) at the groups G = {1, 2} and H = {7, 8} of an empty sessions table,
  for 30 minutes: one parent and the four leaves (1, 7), (1, 8), (2, 7), (2, 8).
\<close>

theorem start_group_parent_and_leaves_witness:
  "group_by_name (avatar_groups demo_store) (Some ''G'')
      = Some \<lparr>group_key = 1, group_name = ''G'', members = [1, 2]\<rparr>
   \<and> group_by_name (ic_groups demo_store) (Some ''H'')
      = Some \<lparr>group_key = 1, group_name = ''H'', members = [7, 8]\<rparr>
   \<and> end_time_representable demo_env (Some 30) (Suc (clock_reads demo_store))
   \<and> (\<exists>msg parent leaves.
         fst (handle_start_group demo_env
                \<lparr>sg_avatar_group = Some ''G'', sg_ic_group = Some ''H'', sg_duration = Some 30\<rparr>
                demo_store) = Success msg
       \<and> sessions (snd (handle_start_group demo_env
                \<lparr>sg_avatar_group = Some ''G'', sg_ic_group = Some ''H'', sg_duration = Some 30\<rparr>
                demo_store)) = parent # leaves
       \<and> is_group_session parent \<and> session_type parent = GROUP_IC_SESSION
       \<and> length leaves = 4
       \<and> map (\<lambda>x. (is_group_session x, parent_session_id x, avatar_id x, ic_id x)) leaves
           = [(False, Some (session_id parent), Some 1, Some 7),
              (False, Some (session_id parent), Some 1, Some 8),
              (False, Some (session_id parent), Some 2, Some 7),
              (False, Some (session_id parent), Some 2, Some 8)])"
proof -
  let ?data = "\<lparr>sg_avatar_group = Some ''G'', sg_ic_group = Some ''H'', sg_duration = Some 30\<rparr>"
  let ?A = "\<lparr>group_key = 1, group_name = ''G'', members = [1, 2]\<rparr>"
  let ?I = "\<lparr>group_key = 1, group_name = ''H'', members = [7, 8]\<rparr>"
  have A: "group_by_name (avatar_groups demo_store) (sg_avatar_group ?data) = Some ?A"
    by code_simp
  have I: "group_by_name (ic_groups demo_store) (sg_ic_group ?data) = Some ?I"
    by code_simp
  have fkA: "\<forall>a\<in>set (members ?A). get_avatar demo_store (Some a) \<noteq> None"
    by code_simp
  have fkI: "\<forall>i\<in>set (members ?I). get_ic demo_store (Some i) \<noteq> None"
    by code_simp
  have rep: "end_time_representable demo_env (sg_duration ?data) (Suc (clock_reads demo_store))"
    by code_simp
  have la: "loaded_members demo_env ''start_group.avatar_group'' ?A = [1, 2]" by code_simp
  have li: "loaded_members demo_env ''start_group.ic_group'' ?I = [7, 8]" by code_simp
  have empty: "sessions demo_store = []"
    by (simp add: demo_store_def)
  have ne: "members ?A \<noteq> [] \<and> members ?I \<noteq> []
              \<and> end_time_representable demo_env (sg_duration ?data) (Suc (clock_reads demo_store))"
    using rep by simp
  from start_group_parent_and_leaves[OF A I fkA fkI, of demo_env, THEN conjunct2, THEN conjunct2,
      THEN mp, OF ne]
  obtain msg parent leaves where r:
    "fst (handle_start_group demo_env ?data demo_store) = Success msg"
    "drop (length (sessions demo_store)) (sessions (snd (handle_start_group demo_env ?data demo_store)))
       = parent # leaves"
    "is_group_session parent" "session_type parent = GROUP_IC_SESSION"
    "length leaves = length (members ?A) * length (members ?I)"
    "map (\<lambda>x. (is_group_session x, parent_session_id x, avatar_id x, ic_id x)) leaves
       = map (\<lambda>(a, i). (False, Some (session_id parent), Some a, Some i))
           (List.product (loaded_members demo_env ''start_group.avatar_group'' ?A)
                         (loaded_members demo_env ''start_group.ic_group'' ?I))"
    by blast
  have rows: "sessions (snd (handle_start_group demo_env ?data demo_store)) = parent # leaves"
    using r(2) by (simp add: empty)
  have len: "length leaves = 4" using r(5) by simp
  have pairs: "map (\<lambda>x. (is_group_session x, parent_session_id x, avatar_id x, ic_id x)) leaves
           = [(False, Some (session_id parent), Some 1, Some 7),
              (False, Some (session_id parent), Some 1, Some 8),
              (False, Some (session_id parent), Some 2, Some 7),
              (False, Some (session_id parent), Some 2, Some 8)]"
    unfolding r(6) la li by simp
  have A': "group_by_name (avatar_groups demo_store) (Some ''G'') = Some ?A" using A by simp
  have I': "group_by_name (ic_groups demo_store) (Some ''H'') = Some ?I" using I by simp
  have rep': "end_time_representable demo_env (Some 30) (Suc (clock_reads demo_store))" using rep by simp
  show ?thesis
    apply (intro conjI A' I' rep')
    apply (rule exI[of _ msg], rule exI[of _ parent], rule exI[of _ leaves])
    using r(1) rows r(3,4) len pairs by simp
qed

section \<open>The kinds of the rows under a group session\<close>

lemma kind_blind [simp]:
  "kind (y\<lparr>status := a\<rparr>) = kind y"
  "kind (y\<lparr>worker_pid := b\<rparr>) = kind y"
  "kind (y\<lparr>session_id := k\<rparr>) = kind y"
  "kind (y\<lparr>description := d\<rparr>) = kind y"
  by (simp_all add: kind_def)

lemma add_and_spawn_kind:
  "map kind (sessions (add_and_spawn e x s)) = map kind (sessions s) @ [kind x]"
  by (simp add: add_and_spawn_map[of kind])

lemma find_distinct_key:
  assumes "distinct (map session_id xs)" and "p \<in> set xs"
  shows "find (\<lambda>x. session_id x = session_id p) xs = Some p"
  using assms by (induction xs) (auto simp: image_iff)

lemma start_group_child_kind:
  "\<exists>ys. map kind (sessions (final (start_group_child e p a i t))) = map kind (sessions t) @ ys
        \<and> list_all (\<lambda>(pp, ty, g). pp \<noteq> None \<and> ty = IC_SESSION \<and> \<not> g) ys"
  unfolding start_group_child_def
  by (auto simp: Let_def add_and_spawn_kind kind_def Session_init_def split: option.splits)

lemma start_group_loops_kind:
  "\<exists>ys. map kind (sessions (final (for_each (\<lambda>a. for_each (\<lambda>i. start_group_child e p a i) Is) As s)))
          = map kind (sessions s) @ ys
        \<and> list_all (\<lambda>(pp, ty, g). pp \<noteq> None \<and> ty = IC_SESSION \<and> \<not> g) ys"
  by (rule for_each_grows, rule for_each_grows, rule start_group_child_kind)

lemma handle_start_group_kind:
  "\<exists>ys. map kind (sessions (snd (handle_start_group e data s))) = map kind (sessions s) @ ys
        \<and> list_all (\<lambda>(pp, ty, g). if pp = None then g \<and> ty = GROUP_IC_SESSION
                                   else ty = IC_SESSION \<and> \<not> g) ys"
proof (cases "\<exists>A I p0 s2. group_by_name (avatar_groups s) (sg_avatar_group data) = Some A
                  \<and> group_by_name (ic_groups s) (sg_ic_group data) = Some I
                  \<and> members A \<noteq> [] \<and> members I \<noteq> []
                  \<and> timed_session e (sg_duration data) GROUP_IC_SESSION RUNNING s = Inr (p0, s2)")
  case False
  have "sessions (snd (handle_start_group e data s)) = sessions s"
  proof (cases "group_by_name (avatar_groups s) (sg_avatar_group data)")
    case None
    then show ?thesis by (simp add: handle_start_group_def)
  next
    case A: (Some A)
    show ?thesis
    proof (cases "group_by_name (ic_groups s) (sg_ic_group data)")
      case None
      then show ?thesis using A by (simp add: handle_start_group_def)
    next
      case I: (Some I)
      show ?thesis
      proof (cases "members A = [] \<or> members I = []")
        case True
        then show ?thesis using A I by (auto simp: handle_start_group_def)
      next
        case ne: False
        show ?thesis
        proof (cases "timed_session e (sg_duration data) GROUP_IC_SESSION RUNNING s")
          case (Inl r)
          obtain err s2 where r: "r = (err, s2)" by (cases r)
          show ?thesis using A I ne Inl r timed_session_error(1)[of e "sg_duration data" GROUP_IC_SESSION RUNNING s err s2]
            by (simp add: handle_start_group_def)
        next
          case (Inr r)
          obtain p0 s2 where "r = (p0, s2)" by (cases r)
          then show ?thesis using False A I ne Inr by auto
        qed
      qed
    qed
  qed
  then show ?thesis by simp
next
  case True
  then obtain A I p0 s2 where A: "group_by_name (avatar_groups s) (sg_avatar_group data) = Some A"
    and I: "group_by_name (ic_groups s) (sg_ic_group data) = Some I"
    and ne: "members A \<noteq> []" "members I \<noteq> []"
    and ts: "timed_session e (sg_duration data) GROUP_IC_SESSION RUNNING s = Inr (p0, s2)" by blast
  note st = timed_session_store[OF ts]
  define pr where "pr = p0\<lparr>is_group_session := True,
       description := Some (''IC Group '' @ quoted (group_name I) @ '' on Avatar Group '' @ quoted (group_name A)),
       avatar_group_id := Some (group_key A), ic_group_id := Some (group_key I)\<rparr>"
  obtain parent s3 where add: "db_add pr s2 = (parent, s3)" by (cases "db_add pr s2")
  define r where "r = for_each (\<lambda>a. for_each (\<lambda>i. start_group_child e parent a i)
                                  (loaded_members e ''start_group.ic_group'' I))
                        (loaded_members e ''start_group.avatar_group'' A) s3"
  have snd_eq: "map kind (sessions (snd (handle_start_group e data s))) = map kind (sessions (final r))"
    using A I ne ts add
    by (auto simp: handle_start_group_def Let_def pr_def r_def split: sum.splits)
  from start_group_loops_kind[of e parent "loaded_members e ''start_group.ic_group'' I"
      "loaded_members e ''start_group.avatar_group'' A" s3]
  obtain ys where ys: "map kind (sessions (final r)) = map kind (sessions s3) @ ys"
    "list_all (\<lambda>(pp, ty, g). pp \<noteq> None \<and> ty = IC_SESSION \<and> \<not> g) ys"
    unfolding r_def by blast
  have k: "kind pr = (None, GROUP_IC_SESSION, True)"
    using st(11,14) by (simp add: kind_def pr_def)
  have "map kind (sessions s3) = map kind (sessions s) @ [(None, GROUP_IC_SESSION, True)]"
    using db_add_map(1)[of kind, OF _ add] st(1) k by simp
  then have "map kind (sessions (final r)) = map kind (sessions s) @ ((None, GROUP_IC_SESSION, True) # ys)"
    using ys(1) by simp
  moreover have "list_all (\<lambda>(pp, ty, g). if pp = None then g \<and> ty = GROUP_IC_SESSION
                                   else ty = IC_SESSION \<and> \<not> g) ((None, GROUP_IC_SESSION, True) # ys)"
    using ys(2) by (auto simp: list_all_iff)
  ultimately show ?thesis unfolding snd_eq by blast
qed

lemma add_avatar_member_ic_child_kind:
  "\<exists>ys. map kind (sessions (snd (final (add_avatar_member_ic_child e av p i cs))))
          = map kind (sessions (snd cs)) @ ys
        \<and> list_all (\<lambda>(pp, ty, g). pp = Some (session_id p) \<and> ty = IC_SESSION \<and> \<not> g) ys"
  unfolding add_avatar_member_ic_child_def
  by (auto simp: Let_def add_and_spawn_kind kind_def Session_init_def split: option.splits prod.splits)

lemma add_avatar_member_parent_kind:
  "\<exists>ys. map kind (sessions (snd (final (add_avatar_member_parent e av p cs))))
          = map kind (sessions (snd cs)) @ ys
        \<and> list_all (\<lambda>(pp, ty, g). pp = Some (session_id p) \<and> \<not> g
                        \<and> (session_type p = GROUP_IC_SESSION \<longrightarrow> ty = IC_SESSION)) ys"
proof (cases "session_type p = GROUP_IC_SESSION")
  case True
  obtain n t where cs: "cs = (n, t)" by (cases cs)
  show ?thesis
  proof (cases "group_by_key (ic_groups t) (ic_group_id p)")
    case None
    then show ?thesis using True cs by (simp add: add_avatar_member_parent_def)
  next
    case (Some g)
    let ?ms = "loaded_members e ''add_member_to_group.ic_group'' g"
    have eq: "add_avatar_member_parent e av p cs
          = for_each (add_avatar_member_ic_child e av p) ?ms cs"
      using True cs Some by (simp add: add_avatar_member_parent_def)
    from for_each_grows[of ?ms "\<lambda>c. map kind (sessions (snd c))" "add_avatar_member_ic_child e av p"
        "\<lambda>(pp, ty, g). pp = Some (session_id p) \<and> ty = IC_SESSION \<and> \<not> g" cs]
      add_avatar_member_ic_child_kind[of e av p]
    obtain ys where "map kind (sessions (snd (final (for_each (add_avatar_member_ic_child e av p) ?ms cs))))
          = map kind (sessions (snd cs)) @ ys"
        "list_all (\<lambda>(pp, ty, g). pp = Some (session_id p) \<and> ty = IC_SESSION \<and> \<not> g) ys"
      by blast
    then show ?thesis unfolding eq by (auto simp: list_all_iff)
  qed
next
  case False
  then show ?thesis
    unfolding add_avatar_member_parent_def
    by (auto simp: Let_def add_and_spawn_kind kind_def Session_init_def split: prod.splits)
qed

lemma commit_rows:
  assumes "p \<in> set (sessions (commit s))"
  shows "\<exists>q\<in>set (sessions s). session_id q = session_id p \<and> session_type q = session_type p
            \<and> kind q = kind p"
  using assms by (auto simp: commit_def)

lemma add_avatar_member_kind:
  "\<exists>ys. map kind (sessions (snd (add_avatar_member e data s))) = map kind (sessions s) @ ys
        \<and> list_all (\<lambda>(pp, ty, g). \<exists>p\<in>set (sessions s). pp = Some (session_id p) \<and> \<not> g
                        \<and> (session_type p = GROUP_IC_SESSION \<longrightarrow> ty = IC_SESSION)) ys"
proof (cases "\<exists>g av. group_by_name (avatar_groups s) (Some (md_group_name data)) = Some g
                 \<and> get_avatar s (Some (md_member_id data)) = Some av
                 \<and> md_member_id data \<notin> set (members g)")
  case False
  then have "snd (add_avatar_member e data s) = s"
    by (auto simp: add_avatar_member_def split: option.splits)
  then show ?thesis by simp
next
  case True
  then obtain g av where g: "group_by_name (avatar_groups s) (Some (md_group_name data)) = Some g"
    and av: "get_avatar s (Some (md_member_id data)) = Some av"
    and nm: "md_member_id data \<notin> set (members g)" by blast
  define s1 where "s1 = (commit s)\<lparr>avatar_groups := add_member (group_key g) (md_member_id data) (avatar_groups s)\<rparr>"
  define active where "active = query_all e ''add_member_to_group.avatar''
                                  (filter (\<lambda>x. is_group_session x \<and> status x = RUNNING
                                     \<and> avatar_group_id x = Some (group_key g)) (sessions s1))"
  define r where "r = for_each (add_avatar_member_parent e av) active (0, s1)"
  have snd_eq: "sessions (snd (add_avatar_member e data s)) = sessions (snd (final r))"
    using g av nm
    by (auto simp: add_avatar_member_def Let_def r_def active_def s1_def split: sum.splits)
  have sub: "\<And>p. p \<in> set active \<Longrightarrow> \<exists>q\<in>set (sessions s). session_id q = session_id p
                 \<and> session_type q = session_type p"
  proof -
    fix p assume "p \<in> set active"
    then have "p \<in> set (sessions (commit s))" by (simp add: active_def s1_def)
    from commit_rows[OF this] show "\<exists>q\<in>set (sessions s). session_id q = session_id p
                 \<and> session_type q = session_type p" by blast
  qed
  have "\<exists>ys. map kind (sessions (snd (final r))) = map kind (sessions (snd (0::nat, s1))) @ ys
        \<and> list_all (\<lambda>(pp, ty, g). \<exists>p\<in>set (sessions s). pp = Some (session_id p) \<and> \<not> g
                        \<and> (session_type p = GROUP_IC_SESSION \<longrightarrow> ty = IC_SESSION)) ys"
    unfolding r_def
  proof (rule for_each_grows[where h = "\<lambda>c. map kind (sessions (snd c))"])
    fix p and t :: "nat \<times> HealerDaemon" assume p: "p \<in> set active"
    from sub[OF p] obtain q where q: "q \<in> set (sessions s)" "session_id q = session_id p"
      "session_type q = session_type p" by blast
    from add_avatar_member_parent_kind[of e av p t]
    obtain ys where ys: "map kind (sessions (snd (final (add_avatar_member_parent e av p t))))
          = map kind (sessions (snd t)) @ ys"
        "list_all (\<lambda>(pp, ty, g). pp = Some (session_id p) \<and> \<not> g
                        \<and> (session_type p = GROUP_IC_SESSION \<longrightarrow> ty = IC_SESSION)) ys"
      by blast
    have "list_all (\<lambda>(pp, ty, g). \<exists>p\<in>set (sessions s). pp = Some (session_id p) \<and> \<not> g
                        \<and> (session_type p = GROUP_IC_SESSION \<longrightarrow> ty = IC_SESSION)) ys"
      unfolding list_all_iff
    proof
      fix y assume y: "y \<in> set ys"
      obtain pp ty gg where yy: "y = (pp, ty, gg)" by (cases y)
      from ys(2) y yy have "pp = Some (session_id p) \<and> \<not> gg
                        \<and> (session_type p = GROUP_IC_SESSION \<longrightarrow> ty = IC_SESSION)"
        by (auto simp: list_all_iff)
      then have "pp = Some (session_id q) \<and> \<not> gg
                        \<and> (session_type q = GROUP_IC_SESSION \<longrightarrow> ty = IC_SESSION)"
        using q by simp
      then show "case y of (pp, ty, g) \<Rightarrow> \<exists>p\<in>set (sessions s). pp = Some (session_id p) \<and> \<not> g
                        \<and> (session_type p = GROUP_IC_SESSION \<longrightarrow> ty = IC_SESSION)"
        using q(1) yy by auto
    qed
    with ys(1) show "\<exists>ys. map kind (sessions (snd (final (add_avatar_member_parent e av p t))))
          = map kind (sessions (snd t)) @ ys
        \<and> list_all (\<lambda>(pp, ty, g). \<exists>p\<in>set (sessions s). pp = Some (session_id p) \<and> \<not> g
                        \<and> (session_type p = GROUP_IC_SESSION \<longrightarrow> ty = IC_SESSION)) ys"
      by blast
  qed
  moreover have "map kind (sessions s1) = map kind (sessions s)"
    by (simp add: s1_def commit_map_blind[of kind])
  ultimately show ?thesis unfolding snd_eq by simp
qed

lemma add_ic_member_parent_sessions:
  "sessions (snd (final (add_ic_member_parent p cs))) = sessions (snd cs)"
  by (auto simp: add_ic_member_parent_def split: prod.splits option.splits)

lemma add_ic_member_sessions:
  "sessions (snd (add_ic_member e data s)) = sessions s
   \<or> sessions (snd (add_ic_member e data s)) = sessions (commit s)"
proof (cases "\<exists>g. group_by_name (ic_groups s) (Some (md_group_name data)) = Some g
                 \<and> get_ic s (Some (md_member_id data)) \<noteq> None
                 \<and> md_member_id data \<notin> set (members g)")
  case False
  then have "snd (add_ic_member e data s) = s"
    by (auto simp: add_ic_member_def split: option.splits)
  then show ?thesis by simp
next
  case True
  then obtain g where g: "group_by_name (ic_groups s) (Some (md_group_name data)) = Some g"
    and ic: "get_ic s (Some (md_member_id data)) \<noteq> None"
    and nm: "md_member_id data \<notin> set (members g)" by blast
  define s1 where "s1 = (commit s)\<lparr>ic_groups := add_member (group_key g) (md_member_id data) (ic_groups s)\<rparr>"
  define active where "active = query_all e ''add_member_to_group.ic''
                                  (filter (\<lambda>x. is_group_session x \<and> status x = RUNNING
                                     \<and> ic_group_id x = Some (group_key g)) (sessions s1))"
  define r where "r = for_each add_ic_member_parent active (0, s1)"
  have snd_eq: "sessions (snd (add_ic_member e data s)) = sessions (snd (final r))"
    using g ic nm
    by (auto simp: add_ic_member_def Let_def r_def active_def s1_def split: sum.splits)
  have "sessions (snd (final r)) = sessions (snd (0::nat, s1))"
    unfolding r_def
    by (rule for_each_inv[where I = "\<lambda>t. sessions (snd t) = sessions (snd (0::nat, s1))"])
       (simp_all add: add_ic_member_parent_sessions)
  then show ?thesis unfolding snd_eq by (simp add: s1_def)
qed

lemma add_ic_member_kind: "map kind (sessions (snd (add_ic_member e data s))) = map kind (sessions s)"
  using add_ic_member_sessions[of e data s] commit_map_blind[of kind s] by auto

lemma add_request_member_kind:
  "map kind (sessions (snd (add_request_member data s))) = map kind (sessions s)"
  by (auto simp: add_request_member_def commit_map_blind[of kind] split: option.splits)

lemma handle_add_member_to_group_kind:
  "\<exists>ys. map kind (sessions (snd (handle_add_member_to_group e data s))) = map kind (sessions s) @ ys
        \<and> list_all (\<lambda>(pp, ty, g). \<exists>p\<in>set (sessions s). pp = Some (session_id p) \<and> \<not> g
                        \<and> (session_type p = GROUP_IC_SESSION \<longrightarrow> ty = IC_SESSION)) ys"
  unfolding handle_add_member_to_group_def
  using add_avatar_member_kind[of e data s]
  by (simp add: add_ic_member_kind add_request_member_kind)

lemma drop_of_map_append:
  assumes "map f xs' = map f xs @ ys"
  shows "map f (drop (length xs) xs') = ys"
proof -
  have "map f (drop (length xs) xs') = drop (length xs) (map f xs')" by (simp add: drop_map)
  also have "\<dots> = ys" by (simp add: assms)
  finally show ?thesis .
qed

text \<open>
  Claim C10.  In a store with distinct session keys: of the rows that \<open>start_group\<close>
  adds, the one without a parent is the group parent of kind \<open>GROUP_IC_SESSION\<close> and
  every row with a parent is a leaf of kind \<open>IC_SESSION\<close> with \<open>is_group_session\<close>
  False; and every row that \<open>add_member_to_group\<close> adds under a parent of kind
  \<open>GROUP_IC_SESSION\<close> is of kind \<open>IC_SESSION\<close> with \<open>is_group_session\<close> False.
  Only the parent carries the kind \<open>GROUP_IC_SESSION\<close>.
\<close>

theorem group_ic_leaves_are_ic_sessions:
  assumes "distinct (map session_id (sessions s))"
  shows "(\<forall>x\<in>set (drop (length (sessions s)) (sessions (snd (handle_start_group e sg s)))).
            if parent_session_id x = None
            then is_group_session x \<and> session_type x = GROUP_IC_SESSION
            else session_type x = IC_SESSION \<and> \<not> is_group_session x)
       \<and> (\<forall>x\<in>set (drop (length (sessions s)) (sessions (snd (handle_add_member_to_group e md s)))).
            \<forall>pk p. parent_session_id x = Some pk \<and> get_session s pk = Some p
                   \<and> session_type p = GROUP_IC_SESSION
                \<longrightarrow> session_type x = IC_SESSION \<and> \<not> is_group_session x)"
proof (rule conjI; rule ballI)
  fix x assume x: "x \<in> set (drop (length (sessions s)) (sessions (snd (handle_start_group e sg s))))"
  from handle_start_group_kind[of e sg s]
  obtain ys where ys: "map kind (sessions (snd (handle_start_group e sg s))) = map kind (sessions s) @ ys"
    "list_all (\<lambda>(pp, ty, g). if pp = None then g \<and> ty = GROUP_IC_SESSION else ty = IC_SESSION \<and> \<not> g) ys"
    by blast
  have "kind x \<in> set ys" using drop_of_map_append[OF ys(1)] x by force
  with ys(2) show "if parent_session_id x = None
            then is_group_session x \<and> session_type x = GROUP_IC_SESSION
            else session_type x = IC_SESSION \<and> \<not> is_group_session x"
    by (auto simp: list_all_iff kind_def)
next
  fix x
  assume x: "x \<in> set (drop (length (sessions s)) (sessions (snd (handle_add_member_to_group e md s))))"
  from handle_add_member_to_group_kind[of e md s]
  obtain ys where ys: "map kind (sessions (snd (handle_add_member_to_group e md s))) = map kind (sessions s) @ ys"
    "list_all (\<lambda>(pp, ty, g). \<exists>p\<in>set (sessions s). pp = Some (session_id p) \<and> \<not> g
                        \<and> (session_type p = GROUP_IC_SESSION \<longrightarrow> ty = IC_SESSION)) ys"
    by blast
  have "kind x \<in> set ys" using drop_of_map_append[OF ys(1)] x by force
  with ys(2) obtain q where q: "q \<in> set (sessions s)" "parent_session_id x = Some (session_id q)"
    "\<not> is_group_session x" "session_type q = GROUP_IC_SESSION \<longrightarrow> session_type x = IC_SESSION"
    by (auto simp: list_all_iff kind_def)
  have gq: "get_session s (session_id q) = Some q"
    using find_distinct_key[OF assms q(1)] by (simp add: get_session_def)
  show "\<forall>pk p. parent_session_id x = Some pk \<and> get_session s pk = Some p
                   \<and> session_type p = GROUP_IC_SESSION
                \<longrightarrow> session_type x = IC_SESSION \<and> \<not> is_group_session x"
  proof (intro allI impI)
    fix pk p
    assume p: "parent_session_id x = Some pk \<and> get_session s pk = Some p
                 \<and> session_type p = GROUP_IC_SESSION"
    with gq q(2) have "q = p" by simp
    with p q show "session_type x = IC_SESSION \<and> \<not> is_group_session x" by simp
  qed
qed

text \<open>
  Claim C10 at the running group session of G on H: adding avatar 3 to G adds two
  leaves, both of kind \<open>IC_SESSION\<close>.
\<close>

theorem group_ic_leaves_are_ic_sessions_witness:
  "distinct (map session_id (sessions group_by_group_store))
   \<and> length (drop (length (sessions group_by_group_store))
        (sessions (snd (handle_add_member_to_group demo_env
           \<lparr>md_group_type = ''avatar'', md_group_name = ''G'', md_member_id = 3\<rparr>
           group_by_group_store)))) = 2
   \<and> list_all (\<lambda>x. session_type x = IC_SESSION \<and> \<not> is_group_session x)
        (drop (length (sessions group_by_group_store))
          (sessions (snd (handle_add_member_to_group demo_env
             \<lparr>md_group_type = ''avatar'', md_group_name = ''G'', md_member_id = 3\<rparr>
             group_by_group_store))))"
proof -
  let ?md = "\<lparr>md_group_type = ''avatar'', md_group_name = ''G'', md_member_id = 3\<rparr>"
  let ?new = "drop (length (sessions group_by_group_store))
          (sessions (snd (handle_add_member_to_group demo_env ?md group_by_group_store)))"
  have d: "distinct (map session_id (sessions group_by_group_store))"
    by code_simp
  have len: "length ?new = 2"
    by code_simp
  have par: "list_all (\<lambda>x. parent_session_id x = Some 1) ?new"
    by code_simp
  have p: "map_option session_type (get_session group_by_group_store 1) = Some GROUP_IC_SESSION"
    by code_simp
  from p obtain q where q: "get_session group_by_group_store 1 = Some q"
    "session_type q = GROUP_IC_SESSION" by auto
  have "list_all (\<lambda>x. session_type x = IC_SESSION \<and> \<not> is_group_session x) ?new"
    unfolding list_all_iff
  proof
    fix x assume x: "x \<in> set ?new"
    then have "parent_session_id x = Some 1" using par by (simp add: list_all_iff)
    with group_ic_leaves_are_ic_sessions[OF d, of demo_env undefined ?md] x q
    show "session_type x = IC_SESSION \<and> \<not> is_group_session x" by blast
  qed
  with d len show ?thesis by simp
qed

section \<open>The handlers evaluated on scenarios\<close>

text \<open>
  Claim C1, evaluated on the code.  The store holds the running group session #1 of
  avatar group G = {1, 2} on IC group H = {7, 8} with its four running leaves.  Adding
  IC 9 to H answers "Started 2 new live session(s)." but leaves the sessions table as it
  was: no leaf (avatar, 9) is created or spawned, where the claim has two.
\<close>

theorem add_ic_member_starts_no_leaf:
  "fst (handle_add_member_to_group demo_env
          \<lparr>md_group_type = ''ic'', md_group_name = ''H'', md_member_id = 9\<rparr> group_by_group_store)
     = Success (''Added IC 9 to group '' @ quoted ''H'' @ ''. Started 2 new live session(s).'')
   \<and> sessions (snd (handle_add_member_to_group demo_env
          \<lparr>md_group_type = ''ic'', md_group_name = ''H'', md_member_id = 9\<rparr> group_by_group_store))
     = sessions group_by_group_store
   \<and> map (\<lambda>x. (session_id x, is_group_session x, session_type x, status x, parent_session_id x))
       (sessions group_by_group_store)
     = [(1, True, GROUP_IC_SESSION, RUNNING, None), (2, False, IC_SESSION, RUNNING, Some 1),
        (3, False, IC_SESSION, RUNNING, Some 1), (4, False, IC_SESSION, RUNNING, Some 1),
        (5, False, IC_SESSION, RUNNING, Some 1)]"
  by code_simp

text \<open>
  Claim C4, evaluated on the code.  \<open>start_ic\<close> on the avatar group G = {1, 2} for 30
  minutes, with a clock that advances by one second between two readings: the parent
  (#1) starts at 0 and ends at 1801000000, its leaves start at 2000000 and 4000000 and
  end at 1803000000 and 1805000000.  Each leaf reads the clock again instead of taking
  the parent's times.
\<close>

theorem start_ic_leaf_times_differ:
  "map (\<lambda>x. (session_id x, parent_session_id x, start_time x, end_time x))
     (sessions (snd (handle_start_ic demo_env
        \<lparr>si_avatar_id = None, si_avatar_group = Some ''G'', si_ic_id = 7, si_duration = Some 30\<rparr>
        demo_store)))
   = [(1, None, 0, Some 1801000000),
      (2, Some 1, 2000000, Some 1803000000),
      (3, Some 1, 4000000, Some 1805000000)]"
  by code_simp

text \<open>
  Claim C6, evaluated on the code.  \<open>stop_session\<close> on a COMPLETED session answers
  "Stopped 0 session(s)." and sets the session's status to STOPPED.
\<close>

theorem stop_session_overwrites_completed:
  "fst (handle_stop_session (Some 1) completed_store) = Success ''Stopped 0 session(s).''
   \<and> map status (sessions completed_store) = [COMPLETED]
   \<and> map status (sessions (snd (handle_stop_session (Some 1) completed_store))) = [STOPPED]"
  by code_simp

text \<open>
  Counterexample to claim C2.  \<open>start_ic\<close> with the group-valued argument
  \<open>avatar_group = Solo\<close>, a group with the single member 3, succeeds and creates one row
  only: a leaf without parent.  No row with \<open>is_group_session\<close> is created.
\<close>

theorem start_ic_single_member_group_no_parent:
  "fst (handle_start_ic demo_env
          \<lparr>si_avatar_id = None, si_avatar_group = Some ''Solo'', si_ic_id = 7, si_duration = None\<rparr>
          demo_store) = Success ''Started 1 session(s).''
   \<and> map (\<lambda>x. (is_group_session x, parent_session_id x, avatar_id x))
       (sessions (snd (handle_start_ic demo_env
          \<lparr>si_avatar_id = None, si_avatar_group = Some ''Solo'', si_ic_id = 7, si_duration = None\<rparr>
          demo_store))) = [(False, None, Some 3)]"
  by code_simp

text \<open>
  Counterexample to claim C3.  Session #1 is a parent bound to avatar group G and is
  STOPPED, a terminal status.  \<open>fail_sessions_on_target\<close> for the group G sets it to
  FAILED, together with the running parent #4 and its running leaves.
\<close>

theorem fail_on_group_overwrites_stopped_parent:
  "map (\<lambda>x. (session_id x, is_group_session x, avatar_group_id x, status x)) (sessions stopped_parent_store)
     = [(1, True, Some 1, STOPPED), (2, False, None, STOPPED), (3, False, None, STOPPED),
        (4, True, Some 1, RUNNING), (5, False, None, RUNNING), (6, False, None, RUNNING)]
   \<and> map (\<lambda>x. (session_id x, status x))
       (sessions (snd (handle_fail_sessions_on_target
          \<lparr>fd_avatar_id = None, fd_avatar_group = Some ''G''\<rparr> stopped_parent_store)))
     = [(1, FAILED), (2, STOPPED), (3, STOPPED), (4, FAILED), (5, FAILED), (6, FAILED)]"
  by code_simp

text \<open>
  Counterexample to claim C5.  \<open>start_group\<close> of G = {1, 2} on H = {7, 8}, both
  non-empty, with a duration of 10000000000 minutes: the end time lies after the year
  9999, \<open>utcnow() + timedelta(...)\<close> raises OverflowError, and the handler answers with
  the error and creates no session, neither parent nor leaf.
\<close>

theorem start_group_unrepresentable_end_time:
  "fst (handle_start_group demo_env
          \<lparr>sg_avatar_group = Some ''G'', sg_ic_group = Some ''H'', sg_duration = Some 10000000000\<rparr>
          demo_store) = Error ''date value out of range''
   \<and> sessions (snd (handle_start_group demo_env
          \<lparr>sg_avatar_group = Some ''G'', sg_ic_group = Some ''H'', sg_duration = Some 10000000000\<rparr>
          demo_store)) = []
   \<and> map (\<lambda>g. (group_name g, members g)) (avatar_groups demo_store) = [(''G'', [1, 2]), (''Solo'', [3])]
   \<and> map (\<lambda>g. (group_name g, members g)) (ic_groups demo_store) = [(''H'', [7, 8])]"
  by code_simp

text \<open>
  Claim C7, evaluated on the code.  Avatar group G is bound to the running group session
  #1 with four running leaves.  \<open>remove_group\<close> deletes the group, and afterwards every
  leaf is still RUNNING with its worker pid and its entry in \<open>active_workers\<close>: no
  session is stopped, where the claim has every running leaf stopped first.
\<close>

theorem remove_group_stops_nothing:
  "fst (handle_remove_group \<lparr>gd_group_type = ''avatar'', gd_group_name = ''G''\<rparr> group_by_group_store)
     = Success (''Group '' @ quoted ''G'' @ '' and all its memberships have been deleted.'')
   \<and> map group_name (avatar_groups (snd (handle_remove_group
          \<lparr>gd_group_type = ''avatar'', gd_group_name = ''G''\<rparr> group_by_group_store))) = [''Solo'']
   \<and> map (\<lambda>x. (session_id x, status x, worker_pid x))
       (sessions (snd (handle_remove_group
          \<lparr>gd_group_type = ''avatar'', gd_group_name = ''G''\<rparr> group_by_group_store)))
     = [(1, RUNNING, None), (2, RUNNING, Some 4000), (3, RUNNING, Some 4001),
        (4, RUNNING, Some 4002), (5, RUNNING, Some 4003)]
   \<and> map (active_workers (snd (handle_remove_group
          \<lparr>gd_group_type = ''avatar'', gd_group_name = ''G''\<rparr> group_by_group_store))) [2, 3, 4, 5]
     = [Some 4000, Some 4001, Some 4002, Some 4003]"
  by code_simp

lemma ic_7_in_group_by_group_store: "get_ic group_by_group_store (Some 7) = Some \<lparr>ic_key = 7, ic_name = ''IC7'', wav_data = ''u''\<rparr>"
  by code_simp

lemma nothing_pending_in_group_by_group_store: "pending_failed group_by_group_store = []"
  by code_simp

text \<open>
  Claim C8, evaluated on the code.  IC 7 exists, is cached and is used by running
  sessions.  \<open>remove_entity\<close> for the entity type \<open>ic\<close> answers with the error of the
  missing attribute and changes nothing: the row, the sessions and the cache entry stay.
\<close>

theorem remove_entity_ic_is_an_error:
  "handle_remove_entity \<lparr>ed_entity_type = ''ic'', ed_id = 7\<rparr> group_by_group_store
     = (Error (quoted ''InformationCopy'' @ '' object has no attribute '' @ quoted ''source_sessions''),
        group_by_group_store)
   \<and> get_ic group_by_group_store (Some 7) = Some \<lparr>ic_key = 7, ic_name = ''IC7'', wav_data = ''u''\<rparr>
   \<and> ic_cache group_by_group_store 7 = Some ''u''"
proof -
  have "rollback group_by_group_store = group_by_group_store"
    using nothing_pending_in_group_by_group_store
    by (metis HealerDaemon.surjective HealerDaemon.update_convs(15) rollback_def)
  moreover have "ic_cache group_by_group_store 7 = Some ''u''" by code_simp
  ultimately show ?thesis
    by (simp add: handle_remove_entity_def ic_7_in_group_by_group_store)
qed

lemma pending_store_rows:
  "map (\<lambda>x. (session_id x, is_group_session x, avatar_group_id x, status x)) (sessions pending_store)
     = [(1, True, Some 1, STOPPED), (2, False, None, STOPPED), (3, False, None, STOPPED)]
   \<and> pending_failed pending_store = [1]"
  by code_simp

lemma failed_group_store_rows:
  "map (\<lambda>x. (session_id x, is_group_session x, status x)) (sessions failed_group_store)
     = [(1, True, FAILED), (2, False, FAILED), (3, False, FAILED), (4, False, FAILED), (5, False, FAILED)]
   \<and> pending_failed failed_group_store = []"
  by code_simp

end
